theory Spec2Isabelle
  imports Complex_Main "HOL-Library.Product_Lexorder"
begin

section \<open>The SRL tax calculator (\<open>src/client/src/lib/srl-tax-calculator.ts\<close>)\<close>

text \<open>
  Modelling conventions.

  \<^item> A number of the input record (money, a rate, a head count) is a \<open>real\<close>, and the
    arithmetic on reals is exact: the rounding of IEEE-754 doubles and their infinities
    are not part of the model. Year numbers are \<open>int\<close>.
  \<^item> An optional field \<open>x?: T\<close> is a \<open>T option\<close>; \<open>None\<close> is \<open>undefined\<close>.
  \<^item> The source produces \<open>NaN\<close> from such an input in two places, and both are
    modelled. The year of a start date that cannot be parsed: the resolved start year
    is an \<open>int option\<close> and \<open>None\<close> stands for \<open>NaN\<close>. The regional rate of a region
    string that names a member every object inherits (\<open>constructor\<close>, \<open>toString\<close>, ...):
    the rate and everything computed from it has the type \<open>number\<close>, a real or \<open>NaN\<close>,
    with the arithmetic and the comparisons of JavaScript (an operation on \<open>NaN\<close> gives
    \<open>NaN\<close>, a comparison with \<open>NaN\<close> is false).
  \<^item> A date string \<open>dd/mm/yyyy\<close> is a value \<open>Date dd mm yyyy\<close>. The source compares two
    such strings through \<open>new Date(yyyy-mm-dd).getTime()\<close>; \<open>getTime\<close> below is the
    triple (year, month, day) in lexicographic order, which orders calendar dates the
    same way.
  \<^item> The two things the source reads from its host, the clock (\<open>new Date()\<close>) and the
    date parser (\<open>new Date(s).getFullYear()\<close>), are explicit parameters.
\<close>

subsection \<open>JavaScript primitives\<close>

definition truthy :: "real option \<Rightarrow> bool" where
  \<comment> \<open>a number is falsy when it is \<open>undefined\<close> or \<open>0\<close>\<close>
  "truthy x = (case x of None \<Rightarrow> False | Some v \<Rightarrow> v \<noteq> 0)"

definition orElse :: "real option \<Rightarrow> real \<Rightarrow> real" where
  \<comment> \<open>\<open>x || d\<close> on an optional number\<close>
  "orElse x d = (case x of None \<Rightarrow> d | Some v \<Rightarrow> if v = 0 then d else v)"

definition orElseInt :: "int option \<Rightarrow> int \<Rightarrow> int" where
  \<comment> \<open>\<open>x || d\<close> on an optional year\<close>
  "orElseInt x d = (case x of None \<Rightarrow> d | Some v \<Rightarrow> if v = 0 then d else v)"

definition Math_round :: "real \<Rightarrow> real" where
  \<comment> \<open>\<open>Math.round\<close>: the nearest integer, a tie going up\<close>
  "Math_round x = of_int \<lfloor>x + 1 / 2\<rfloor>"

definition Math_ceil :: "real \<Rightarrow> real" where
  "Math_ceil x = of_int \<lceil>x\<rceil>"

definition round2 :: "real \<Rightarrow> real" where
  \<comment> \<open>the recurring expression \<open>Math.round(x * 100) / 100\<close>\<close>
  "round2 x = Math_round (x * 100) / 100"

subsection \<open>Numbers that may be \<open>NaN\<close>\<close>

datatype number = NaN | Num real

instantiation number :: "{zero, plus, minus, times, inverse}"
begin

definition zero_number :: number where
  "0 = Num 0"

definition plus_number :: "number \<Rightarrow> number \<Rightarrow> number" where
  "x + y = (case (x, y) of (Num a, Num b) \<Rightarrow> Num (a + b) | _ \<Rightarrow> NaN)"

definition minus_number :: "number \<Rightarrow> number \<Rightarrow> number" where
  "x - y = (case (x, y) of (Num a, Num b) \<Rightarrow> Num (a - b) | _ \<Rightarrow> NaN)"

definition times_number :: "number \<Rightarrow> number \<Rightarrow> number" where
  "x * y = (case (x, y) of (Num a, Num b) \<Rightarrow> Num (a * b) | _ \<Rightarrow> NaN)"

definition inverse_number :: "number \<Rightarrow> number" where
  "inverse x = (case x of Num a \<Rightarrow> Num (inverse a) | NaN \<Rightarrow> NaN)"

definition divide_number :: "number \<Rightarrow> number \<Rightarrow> number" where
  \<comment> \<open>the divisor is a non-zero literal wherever the source divides such a number\<close>
  "divide x y = (case (x, y) of (Num a, Num b) \<Rightarrow> Num (a / b) | _ \<Rightarrow> NaN)"

instance ..

end

definition isNegative :: "number \<Rightarrow> bool" where
  \<comment> \<open>\<open>x < 0\<close>\<close>
  "isNegative x = (case x of Num a \<Rightarrow> a < 0 | NaN \<Rightarrow> False)"

definition isPositive :: "number \<Rightarrow> bool" where
  \<comment> \<open>\<open>x > 0\<close>\<close>
  "isPositive x = (case x of Num a \<Rightarrow> a > 0 | NaN \<Rightarrow> False)"

definition Math_abs :: "number \<Rightarrow> number" where
  "Math_abs x = (case x of Num a \<Rightarrow> Num \<bar>a\<bar> | NaN \<Rightarrow> NaN)"

definition roundCents :: "number \<Rightarrow> number" where
  \<comment> \<open>\<open>Math.round(x * 100) / 100\<close> on a number that may be \<open>NaN\<close>\<close>
  "roundCents x = (case x of Num a \<Rightarrow> Num (round2 a) | NaN \<Rightarrow> NaN)"

subsection \<open>Strings of digits\<close>

definition digitChar :: "nat \<Rightarrow> char" where
  "digitChar n = ''0123456789'' ! (n mod 10)"

function showNat :: "nat \<Rightarrow> string" where
  "showNat n = (if n < 10 then [digitChar n] else showNat (n div 10) @ [digitChar n])"
  by pat_completeness auto
termination
  by (relation "measure id") auto

declare showNat.simps [simp del]

definition showInt :: "int \<Rightarrow> string" where
  \<comment> \<open>a year inside a template string\<close>
  "showInt i = (if i < 0 then CHR ''-'' # showNat (nat (- i)) else showNat (nat i))"

subsection \<open>Dates and the clock\<close>

datatype date = Date (day: nat) (month: nat) (year: int)

type_synonym instant = "(int \<times> nat \<times> nat) \<times> nat"
  \<comment> \<open>a point in time: the UTC calendar day (year, month, day) and the milliseconds
      elapsed since that day's midnight\<close>

definition getTime :: "date \<Rightarrow> int \<times> nat \<times> nat" where
  "getTime d = (year d, month d, day d)"

definition midnight :: "date \<Rightarrow> instant" where
  \<comment> \<open>\<open>new Date(yyyy-mm-dd)\<close>: midnight UTC of that day\<close>
  "midnight d = (getTime d, 0)"

subsection \<open>Data model\<close>

record SRLTaxCalculationInput =
  revenue :: real
  costs :: real
  employees :: real
  employeeCosts :: real
  adminSalary :: real
  region :: string
  businessSector :: string
  vatRegime :: string
  hasVatDebt :: bool
  vatDebt :: real
  currentBalance :: real
  startDate :: "string option"
  startYear :: "int option"
  vatOnSales :: "real option"
  vatOnPurchases :: "real option"
  fiscalYear :: "int option"
  revenue2024 :: "real option"
  costs2024 :: "real option"
  utile2024 :: "real option"
  utile2023 :: "real option"
  investimentiPrevisti :: "real option"
  mediaULA2022_2024 :: "real option"
  dipendentiTempo2024 :: "real option"
  nuoveAssunzioni2025 :: "real option"
  hasUsedCIG :: "bool option"
  interessiAttivi :: "real option"
  interessiPassivi :: "real option"
  rolFiscale :: "real option"
  perditePregresseOrdinarie :: "real option"
  perditePrimi3Esercizi :: "real option"
  costoNuoveAssunzioni :: "real option"
  incrementoCostoPersonale :: "real option"

text \<open>The objects of the three event lists share their first fields, as the source's
  spread expressions (\<open>...deadline\<close>, \<open>...payment\<close>) make them do. The amount of a VAT
  deadline is a real; the amount of a calendar event or of a schedule row may be \<open>NaN\<close>,
  so the type of the amount is a parameter.\<close>

record 'n deadline =
  date :: date
  amount :: 'n
  type :: string

datatype category = IRES | IRAP | IVA | INPS | ACCUMULO

record 'n calendarEvent = "'n deadline" +
  category :: category
  description :: string

record event = "number calendarEvent" +
  isIncome :: bool

record scheduleRow = event +
  previousBalance :: number
  newBalance :: number
  deficit :: real
  requiredPayment :: number

record premialeDetails =
  condition1_utiliAccantonati :: bool
  condition2_investimenti :: bool
  condition3_livelloOccupazionale :: bool
  condition4_nuoveAssunzioni :: bool
  condition5_noCIG :: bool
  requiredInvestment :: real
  actualInvestment :: real
  requiredReserve :: real
  incrementoMinimo :: real

record premialeCheck =
  isApplicable :: bool
  details :: "premialeDetails option"

text \<open>The object returned by \<open>calculateROLAndInterests\<close>; its own field \<open>rolFiscale\<close>
  is written \<open>rolFiscaleD\<close> here, the input record having one of that name.\<close>

record rolDetails =
  rolFiscaleD :: real
  interessiAttiviTotali :: real
  interessiPassiviDeducibili :: real
  interessiPassiviIndeducibili :: real
  limitROL :: real

record lossesUsage =
  lossesUsed :: real
  remainingLosses :: real

record accontiDetails =
  isNewBusiness :: bool
  accontiBasedOn2024 :: bool
  accontiRate :: real

text \<open>The result record. A field whose name an earlier record already has carries the
  suffix \<open>R\<close>: \<open>fiscalYearR\<close>, \<open>vatOnSalesR\<close>, \<open>vatOnPurchasesR\<close>, \<open>lossesUsedR\<close>,
  \<open>remainingLossesR\<close>, \<open>rolDetailsR\<close>, \<open>accontiDetailsR\<close>.\<close>

record SRLTaxCalculationResult =
  fiscalYearR :: int
  grossProfit :: real
  taxableIncome :: real
  taxableIncomeAfterLosses :: real
  iresAmount :: real
  iresRate :: real
  isIresPremialeApplicable :: bool
  iresPremialeDetails :: "premialeDetails option"
  irapBase :: real
  irapDeductions :: real
  irapTaxableIncome :: real
  irapAmount :: number
  irapRate :: number
  lossesUsedR :: real
  remainingLossesR :: real
  superDeductionAmount :: real
  rolDetailsR :: rolDetails
  vatOnSalesR :: real
  vatOnPurchasesR :: real
  vatAmount :: real
  vatQuarterly :: real
  vatDeadlines :: "real deadline list"
  inpsAdmin :: real
  inpsEmployees :: real
  inpsTotalAmount :: real
  totalTaxes :: number
  totalDue :: number
  iresFirstAcconto :: real
  iresSecondAcconto :: real
  irapFirstAcconto :: number
  irapSecondAcconto :: number
  accontiDetailsR :: accontiDetails
  monthlyAccrual :: number
  quarterlyPayments :: real
  calendar2025 :: "number calendarEvent list"
  paymentSchedule :: "scheduleRow list"

subsection \<open>Rate tables\<close>

definition IRAP_RATES :: "(string \<times> real) list" where
  "IRAP_RATES =
    [(''PIEMONTE'', 3.9), (''VALLE_AOSTA'', 3.9), (''LOMBARDIA'', 3.9), (''TRENTINO'', 2.68),
     (''VENETO'', 4.08), (''FRIULI'', 3.9), (''LIGURIA'', 3.9), (''EMILIA_ROMAGNA'', 4.65),
     (''TOSCANA'', 3.9), (''UMBRIA'', 3.9), (''MARCHE'', 4.73), (''LAZIO'', 4.82),
     (''ABRUZZO'', 4.82), (''MOLISE'', 4.82), (''CAMPANIA'', 4.97), (''PUGLIA'', 4.82),
     (''BASILICATA'', 3.9), (''CALABRIA'', 4.82), (''SICILIA'', 3.9), (''SARDEGNA'', 2.93)]"

text \<open>
  The property names that every object literal inherits from \<open>Object.prototype\<close>
  (ECMA-262, sections 20.1.3 and B.2.2). \<open>IRAP_RATES[region]\<close> finds them as well as the
  table's own keys: the value is then a function, or for \<open>__proto__\<close> the prototype
  object, which is truthy, so that \<open>||\<close> keeps it, and which divided by 100 is \<open>NaN\<close>.
\<close>

definition objectPrototypeMembers :: "string list" where
  "objectPrototypeMembers =
    [''constructor'', ''hasOwnProperty'', ''isPrototypeOf'', ''propertyIsEnumerable'',
     ''toLocaleString'', ''toString'', ''valueOf'', ''__proto__'', ''__defineGetter__'',
     ''__defineSetter__'', ''__lookupGetter__'', ''__lookupSetter__'']"

definition irapRateOf :: "string \<Rightarrow> number" where
  \<comment> \<open>\<open>(IRAP_RATES[region] || 3.9) / 100\<close>\<close>
  "irapRateOf region' =
    (case map_of IRAP_RATES region' of
       Some v \<Rightarrow> Num (orElse (Some v) 3.9 / 100)
     | None \<Rightarrow> if region' \<in> set objectPrototypeMembers then NaN else Num (3.9 / 100))"

text \<open>\<open>VAT_REGIMES[vatRegime]?.frequency || 4\<close> finds the inherited members too, but none of
  them has a property \<open>frequency\<close>, so the result is the default \<open>4\<close> as for any other
  unknown code; a lookup among the table's own keys gives the same.

  The two description strings are written in ASCII here (the source has a euro sign
  and a less-or-equal sign in them); nothing reads them.\<close>

record vatRegimeInfo =
  label :: string
  frequency :: real
  regimeDescription :: string

definition VAT_REGIMES :: "(string \<times> vatRegimeInfo) list" where
  "VAT_REGIMES =
    [(''MENSILE'', \<lparr>label = ''Liquidazione Mensile'', frequency = 12,
        regimeDescription = ''Obbligo per fatturato > 400k''\<rparr>),
     (''TRIMESTRALE'', \<lparr>label = ''Liquidazione Trimestrale'', frequency = 4,
        regimeDescription = ''Standard per fatturato <= 400k''\<rparr>)]"

subsection \<open>The resolvers\<close>

definition checkIresPremialeConditions :: "SRLTaxCalculationInput \<Rightarrow> premialeCheck" where
  "checkIresPremialeConditions input =
    (if fiscalYear input \<noteq> Some 2025 then \<lparr>isApplicable = False, details = None\<rparr>
     else
       let utile2024 = orElse (utile2024 input) 0;
           utile2023 = orElse (utile2023 input) 0;
           requiredReserve = utile2024 * 0.8;
           condition1 = (utile2024 > 0 \<and> requiredReserve > 0);
           investmentFromReserve = requiredReserve * 0.3;
           investmentFrom2023 = utile2023 * 0.24;
           requiredInvestment = max (max investmentFromReserve investmentFrom2023) 20000;
           actualInvestment = orElse (investimentiPrevisti input) 0;
           condition2 = (actualInvestment \<ge> requiredInvestment);
           mediaULA2022_2024 = orElse (mediaULA2022_2024 input) 0;
           ulaStimate2025 = orElse (dipendentiTempo2024 input) 0;
           condition3 = (mediaULA2022_2024 > 0 \<and> ulaStimate2025 \<ge> mediaULA2022_2024);
           dipendenti2024 = orElse (dipendentiTempo2024 input) 0;
           incrementoMinimo = max 1 (Math_ceil (dipendenti2024 * 0.01));
           nuoveAssunzioni = orElse (nuoveAssunzioni2025 input) 0;
           condition4 = (nuoveAssunzioni \<ge> incrementoMinimo);
           condition5 = (hasUsedCIG input \<noteq> Some True);
           isApplicable = (condition1 \<and> condition2 \<and> condition3 \<and> condition4 \<and> condition5)
       in \<lparr>isApplicable = isApplicable,
           details = Some \<lparr>condition1_utiliAccantonati = condition1,
                           condition2_investimenti = condition2,
                           condition3_livelloOccupazionale = condition3,
                           condition4_nuoveAssunzioni = condition4,
                           condition5_noCIG = condition5,
                           requiredInvestment = requiredInvestment,
                           actualInvestment = actualInvestment,
                           requiredReserve = requiredReserve,
                           incrementoMinimo = incrementoMinimo\<rparr>\<rparr>)"

definition calculateROLAndInterests :: "SRLTaxCalculationInput \<Rightarrow> rolDetails" where
  "calculateROLAndInterests input =
    (let interessiAttivi = orElse (interessiAttivi input) 0;
         interessiPassivi = orElse (interessiPassivi input) 0;
         rolFiscale = orElse (rolFiscale input) (revenue input * 0.15);
         interessiAttiviTotali = interessiAttivi;
         interessiPassiviCopertiDaAttivi = min interessiPassivi interessiAttiviTotali;
         eccedenzaInteressiPassivi = interessiPassivi - interessiPassiviCopertiDaAttivi;
         limitROL = rolFiscale * 0.3;
         interessiPassiviCopertiDaROL = min eccedenzaInteressiPassivi limitROL;
         interessiPassiviDeducibili =
           interessiPassiviCopertiDaAttivi + interessiPassiviCopertiDaROL;
         interessiPassiviIndeducibili = interessiPassivi - interessiPassiviDeducibili
     in \<lparr>rolFiscaleD = rolFiscale,
         interessiAttiviTotali = interessiAttiviTotali,
         interessiPassiviDeducibili = interessiPassiviDeducibili,
         interessiPassiviIndeducibili = interessiPassiviIndeducibili,
         limitROL = limitROL\<rparr>)"

text \<open>The two local constants of \<open>calculateLossesUsage\<close> that say how much of each kind
  of loss is used; the function returns only their sum.\<close>

definition perditePrimi3Used :: "real \<Rightarrow> SRLTaxCalculationInput \<Rightarrow> real" where
  "perditePrimi3Used reddito input = min (orElse (perditePrimi3Esercizi input) 0) reddito"

definition perditeOrdinarieUsed :: "real \<Rightarrow> SRLTaxCalculationInput \<Rightarrow> real" where
  "perditeOrdinarieUsed reddito input =
    (let perditeOrdinarie = orElse (perditePregresseOrdinarie input) 0;
         redditoResiduoDopoPrimi3 = reddito - perditePrimi3Used reddito input;
         limiteOrdinary = redditoResiduoDopoPrimi3 * 0.8
     in min perditeOrdinarie limiteOrdinary)"

definition calculateLossesUsage :: "real \<Rightarrow> SRLTaxCalculationInput \<Rightarrow> lossesUsage" where
  "calculateLossesUsage reddito input =
    (if reddito \<le> 0
     then \<lparr>lossesUsed = 0, remainingLosses = orElse (perditePregresseOrdinarie input) 0\<rparr>
     else
       let perditeOrdinarie = orElse (perditePregresseOrdinarie input) 0;
           totalLossesUsed = perditePrimi3Used reddito input + perditeOrdinarieUsed reddito input;
           remainingLosses = perditeOrdinarie - perditeOrdinarieUsed reddito input
       in \<lparr>lossesUsed = totalLossesUsed, remainingLosses = remainingLosses\<rparr>)"

definition calculateSuperDeduction :: "SRLTaxCalculationInput \<Rightarrow> real" where
  "calculateSuperDeduction input =
    (let costoNuove = orElse (costoNuoveAssunzioni input) 0;
         incrementoCosto = orElse (incrementoCostoPersonale input) 0
     in if costoNuove = 0 then 0
        else let costoAgevolabile = min costoNuove incrementoCosto
             in costoAgevolabile * 0.2)"

definition calculateIrapDeductions :: "SRLTaxCalculationInput \<Rightarrow> real" where
  "calculateIrapDeductions input =
    (let deductions = 0;
         contributiBased = employeeCosts input * 0.3;
         deductions = deductions + contributiBased;
         deductions = (if region input = ''FRIULI'' then deductions + 2000 else deductions)
     in deductions)"

definition getMonthName :: "nat \<Rightarrow> string" where
  "getMonthName m =
    (let months = [''Gennaio'', ''Febbraio'', ''Marzo'', ''Aprile'', ''Maggio'', ''Giugno'',
                   ''Luglio'', ''Agosto'', ''Settembre'', ''Ottobre'', ''Novembre'', ''Dicembre'']
     in if m < length months then months ! m else [])"

definition calculateVATDeadlines ::
  "string \<Rightarrow> real \<Rightarrow> real \<Rightarrow> int \<Rightarrow> real deadline list" where
  "calculateVATDeadlines vatRegime' totalVatAmount frequency' fiscalYear' =
    (if vatRegime' = ''TRIMESTRALE'' then
       let quarterlyAmount = totalVatAmount / 4
       in [\<lparr>date = Date 16 4 fiscalYear', amount = quarterlyAmount,
             type = ''IVA Q1 '' @ showInt fiscalYear'\<rparr>,
           \<lparr>date = Date 16 7 fiscalYear', amount = quarterlyAmount,
             type = ''IVA Q2 '' @ showInt fiscalYear'\<rparr>,
           \<lparr>date = Date 16 10 fiscalYear', amount = quarterlyAmount,
             type = ''IVA Q3 '' @ showInt fiscalYear'\<rparr>,
           \<lparr>date = Date 16 1 (fiscalYear' + 1), amount = quarterlyAmount,
             type = ''IVA Q4 '' @ showInt fiscalYear'\<rparr>]
     else if vatRegime' = ''MENSILE'' then
       let monthlyAmount = totalVatAmount / 12
       in map (\<lambda>month.
                 let paymentMonth = (if month = 12 then 1 else month + 1);
                     paymentYear = (if month = 12 then fiscalYear' + 1 else fiscalYear')
                 in \<lparr>date = Date 16 paymentMonth paymentYear, amount = monthlyAmount,
                      type = ''IVA '' @ getMonthName (month - 1) @ '' '' @ showInt fiscalYear'\<rparr>)
              [1 ..< 13]
     else [])"

subsection \<open>The fiscal calendar\<close>

text \<open>The two IRES installments and the INPS total are reals in every call; the two IRAP
  installments may be \<open>NaN\<close>, and \<open>NaN > 0\<close> is false.\<close>

definition createFiscalCalendar2025 ::
  "real \<Rightarrow> real \<Rightarrow> number \<Rightarrow> number \<Rightarrow> real deadline list \<Rightarrow> real \<Rightarrow> int \<Rightarrow> bool
    \<Rightarrow> number calendarEvent list" where
  "createFiscalCalendar2025 iresFirstAcconto' iresSecondAcconto' irapFirstAcconto'
      irapSecondAcconto' vatDeadlines' inpsTotalAmount' fiscalYear' isNewBusiness2025 =
    (let calendar = [];
         calendar = calendar @
           map (\<lambda>deadline. \<lparr>date = date deadline, amount = Num (amount deadline),
                  type = type deadline, category = IVA, description = type deadline\<rparr>)
               vatDeadlines';
         calendar =
           (if \<not> isNewBusiness2025 then
              let calendar =
                    (if iresFirstAcconto' > 0 then calendar @
                       [\<lparr>date = Date 30 6 2025, amount = Num iresFirstAcconto',
                         type = ''IRES I Acconto 2025'', category = IRES,
                         description = ''Primo acconto IRES 2025 (40% imposta 2024)''\<rparr>]
                     else calendar);
                  calendar =
                    (if isPositive irapFirstAcconto' then calendar @
                       [\<lparr>date = Date 30 6 2025, amount = irapFirstAcconto',
                         type = ''IRAP I Acconto 2025'', category = IRAP,
                         description = ''Primo acconto IRAP 2025 (40% imposta 2024)''\<rparr>]
                     else calendar);
                  calendar =
                    (if iresSecondAcconto' > 0 then calendar @
                       [\<lparr>date = Date 30 11 2025, amount = Num iresSecondAcconto',
                         type = ''IRES II Acconto 2025'', category = IRES,
                         description = ''Secondo acconto IRES 2025 (60% imposta 2024)''\<rparr>]
                     else calendar);
                  calendar =
                    (if isPositive irapSecondAcconto' then calendar @
                       [\<lparr>date = Date 30 11 2025, amount = irapSecondAcconto',
                         type = ''IRAP II Acconto 2025'', category = IRAP,
                         description = ''Secondo acconto IRAP 2025 (60% imposta 2024)''\<rparr>]
                     else calendar)
              in calendar
            else calendar);
         inpsQuarterly = inpsTotalAmount' / 4;
         calendar =
           (if inpsQuarterly > 0 then calendar @
              [\<lparr>date = Date 16 5 fiscalYear', amount = Num inpsQuarterly,
                type = ''INPS I Trim '' @ showInt fiscalYear', category = INPS,
                description = ''Contributi INPS anno '' @ showInt fiscalYear' @ '' - I trimestre''\<rparr>,
               \<lparr>date = Date 20 8 fiscalYear', amount = Num inpsQuarterly,
                type = ''INPS II Trim '' @ showInt fiscalYear', category = INPS,
                description = ''Contributi INPS anno '' @ showInt fiscalYear' @ '' - II trimestre''\<rparr>,
               \<lparr>date = Date 16 11 fiscalYear', amount = Num inpsQuarterly,
                type = ''INPS III Trim '' @ showInt fiscalYear', category = INPS,
                description = ''Contributi INPS anno '' @ showInt fiscalYear' @ '' - III trimestre''\<rparr>,
               \<lparr>date = Date 16 2 (fiscalYear' + 1), amount = Num inpsQuarterly,
                type = ''INPS IV Trim '' @ showInt fiscalYear', category = INPS,
                description = ''Contributi INPS anno '' @ showInt fiscalYear' @ '' - IV trimestre''\<rparr>]
            else calendar)
     in sort_key (\<lambda>a. getTime (date a)) calendar)"

subsection \<open>The payment schedule\<close>

text \<open>The body of the final \<open>forEach\<close> of \<open>createPaymentSchedule\<close>: one row per event,
  the running balance passed along. The deficit,
  \<open>runningBalance < 0 ? Math.abs(runningBalance) : 0\<close>, is a real whatever the balance:
  the test is false for \<open>NaN\<close>.\<close>

fun replay :: "number \<Rightarrow> event list \<Rightarrow> scheduleRow list" where
  "replay runningBalance [] = []"
| "replay runningBalance (ev # rest) =
    (let previousBalance = runningBalance;
         (runningBalance, requiredPayment) =
           (if isIncome ev then (runningBalance + amount ev, amount ev)
            else
              let balanceAfterPayment = runningBalance - amount ev
              in if isNegative balanceAfterPayment then (0, Math_abs balanceAfterPayment)
                 else (balanceAfterPayment, 0));
         deficit = (case runningBalance of Num b \<Rightarrow> if b < 0 then \<bar>b\<bar> else 0 | NaN \<Rightarrow> 0)
     in \<lparr>date = date ev, amount = amount ev, type = type ev, category = category ev,
         description = description ev, isIncome = isIncome ev,
         previousBalance = roundCents previousBalance,
         newBalance = roundCents runningBalance,
         deficit = round2 deficit,
         requiredPayment = roundCents requiredPayment\<rparr>
        # replay runningBalance rest)"

definition createPaymentSchedule ::
  "instant \<Rightarrow> number calendarEvent list \<Rightarrow> real \<Rightarrow> number \<Rightarrow> int \<Rightarrow> scheduleRow list" where
  "createPaymentSchedule today calendar currentBalance' monthlyAccrual' fiscalYear' =
    (let allEvents = [];
         allEvents = allEvents @
           map (\<lambda>month. \<lparr>date = Date 1 month fiscalYear', amount = monthlyAccrual',
                  type = ''Versamento Mensile '' @ showNat month, category = ACCUMULO,
                  description = ''Accantonamento mensile consigliato'', isIncome = True\<rparr>)
               (filter (\<lambda>month. midnight (Date 1 month fiscalYear') \<ge> today) [1 ..< 13]);
         allEvents = allEvents @
           map (\<lambda>payment. \<lparr>date = date payment, amount = amount payment,
                  type = type payment, category = category payment,
                  description = description payment, isIncome = False\<rparr>)
               (filter (\<lambda>payment. midnight (date payment) \<ge> today) calendar);
         allEvents = sort_key (\<lambda>a. getTime (date a)) allEvents
     in replay (Num currentBalance') allEvents)"

subsection \<open>The orchestrator\<close>

definition resolveStartYear :: "(string \<Rightarrow> int option) \<Rightarrow> SRLTaxCalculationInput \<Rightarrow> int option" where
  \<comment> \<open>\<open>input.startYear || (input.startDate ? new Date(input.startDate).getFullYear() : 2025)\<close>;
      the parser gives \<open>None\<close> for a string it cannot read (\<open>NaN\<close> in the source)\<close>
  "resolveStartYear getFullYear input =
    (if startYear input \<noteq> None \<and> startYear input \<noteq> Some 0 then startYear input
     else if startDate input \<noteq> None \<and> startDate input \<noteq> Some []
          then getFullYear (the (startDate input))
          else Some 2025)"

text \<open>The four installment variables start at \<open>0\<close> and are assigned inside one \<open>if\<close>;
  here each is one conditional expression on that \<open>if\<close>'s condition (\<open>computeAcconti\<close>),
  with the two bases of the block bound before them.\<close>

definition calculateSRLTaxes ::
  "(string \<Rightarrow> int option) \<Rightarrow> instant \<Rightarrow> SRLTaxCalculationInput \<Rightarrow> SRLTaxCalculationResult" where
  "calculateSRLTaxes getFullYear today input =
    (let fiscalYear' = orElseInt (fiscalYear input) 2025;
         startYear' = resolveStartYear getFullYear input;
         usePreviousYearData = (case startYear' of None \<Rightarrow> False | Some y \<Rightarrow> y \<le> 2024);
         grossProfit = revenue input - costs input - employeeCosts input;
         taxableIncome = max 0 (grossProfit - adminSalary input);
         rolDetails = calculateROLAndInterests input;
         taxableIncome = taxableIncome - interessiPassiviIndeducibili rolDetails;
         superDeductionAmount = calculateSuperDeduction input;
         taxableIncome = max 0 (taxableIncome - superDeductionAmount);
         lossesUsage = calculateLossesUsage taxableIncome input;
         taxableIncomeAfterLosses = max 0 (taxableIncome - lossesUsed lossesUsage);
         iresPremialeCheck = checkIresPremialeConditions input;
         iresRate = (if isApplicable iresPremialeCheck \<and> fiscalYear' = 2025 then 0.20 else 0.24);
         iresAmount = taxableIncomeAfterLosses * iresRate;
         irapBase = revenue input - (costs input - employeeCosts input);
         irapDeductions = calculateIrapDeductions input;
         irapTaxableIncome = max 0 (irapBase - irapDeductions);
         irapRate = irapRateOf (region input);
         irapAmount = Num irapTaxableIncome * irapRate;
         vatOnSales = orElse (vatOnSales input) (revenue input * 0.22);
         vatOnPurchases = orElse (vatOnPurchases input) (costs input * 0.22);
         vatAmount = max 0 (vatOnSales - vatOnPurchases);
         vatAmount = (if hasVatDebt input \<and> vatDebt input > 0 then vatAmount + vatDebt input
                      else vatAmount);
         vatFrequency = orElse (map_option frequency (map_of VAT_REGIMES (vatRegime input))) 4;
         vatQuarterly = vatAmount / (vatFrequency / 4);
         vatDeadlines = calculateVATDeadlines (vatRegime input) vatAmount vatFrequency fiscalYear';
         inpsAdmin =
           (if adminSalary input > 0 then
              let adminMinimum = 18324;
                  adminMaximum = 105014;
                  adminContributionBase = max adminMinimum (min (adminSalary input) adminMaximum)
              in adminContributionBase * 0.24
            else 0);
         inpsEmployees =
           (if employees input > 0 \<and> employeeCosts input > 0 then employeeCosts input * 0.30
            else 0);
         inpsTotalAmount = inpsAdmin + inpsEmployees;
         totalTaxes = Num iresAmount + irapAmount;
         totalDue = totalTaxes + Num inpsTotalAmount + Num vatAmount;
         isNewBusiness2025 = (case startYear' of None \<Rightarrow> False | Some y \<Rightarrow> y \<ge> 2025);
         accontiDetails = \<lparr>isNewBusiness = isNewBusiness2025,
                            accontiBasedOn2024 = (usePreviousYearData \<and> \<not> isNewBusiness2025),
                            accontiRate = 0.40\<rparr>;
         computeAcconti = (\<not> isNewBusiness2025 \<and> usePreviousYearData);
         baseIres = (if truthy (utile2024 input) then the (utile2024 input) * 0.24
                     else iresAmount * 0.8);
         baseIrap = (if truthy (revenue2024 input)
                     then Num (the (revenue2024 input) - orElse (costs2024 input) 0) * irapRate
                     else irapAmount * Num 0.8);
         iresFirstAcconto = (if computeAcconti then baseIres * 0.40 else 0);
         iresSecondAcconto = (if computeAcconti then baseIres * 0.60 else 0);
         irapFirstAcconto = (if computeAcconti then baseIrap * Num 0.40 else 0);
         irapSecondAcconto = (if computeAcconti then baseIrap * Num 0.60 else 0);
         monthlyAccrual = totalDue / Num 12;
         quarterlyPayments = vatQuarterly + inpsTotalAmount / 4;
         calendar2025 = createFiscalCalendar2025 iresFirstAcconto iresSecondAcconto
                          irapFirstAcconto irapSecondAcconto vatDeadlines inpsTotalAmount
                          fiscalYear' isNewBusiness2025;
         paymentSchedule = createPaymentSchedule today calendar2025 (currentBalance input)
                             monthlyAccrual fiscalYear'
     in \<lparr>fiscalYearR = fiscalYear',
         grossProfit = round2 grossProfit,
         taxableIncome = round2 taxableIncome,
         taxableIncomeAfterLosses = round2 taxableIncomeAfterLosses,
         iresAmount = round2 iresAmount,
         iresRate = iresRate,
         isIresPremialeApplicable = isApplicable iresPremialeCheck,
         iresPremialeDetails =
           (if isApplicable iresPremialeCheck then details iresPremialeCheck else None),
         irapBase = round2 irapBase,
         irapDeductions = round2 irapDeductions,
         irapTaxableIncome = round2 irapTaxableIncome,
         irapAmount = roundCents irapAmount,
         irapRate = irapRate,
         lossesUsedR = round2 (lossesUsed lossesUsage),
         remainingLossesR = round2 (remainingLosses lossesUsage),
         superDeductionAmount = round2 superDeductionAmount,
         rolDetailsR =
           \<lparr>rolFiscaleD = round2 (rolFiscaleD rolDetails),
            interessiAttiviTotali = round2 (interessiAttiviTotali rolDetails),
            interessiPassiviDeducibili = round2 (interessiPassiviDeducibili rolDetails),
            interessiPassiviIndeducibili = round2 (interessiPassiviIndeducibili rolDetails),
            limitROL = round2 (limitROL rolDetails)\<rparr>,
         vatOnSalesR = round2 vatOnSales,
         vatOnPurchasesR = round2 vatOnPurchases,
         vatAmount = round2 vatAmount,
         vatQuarterly = round2 vatQuarterly,
         vatDeadlines = map (\<lambda>deadline. deadline\<lparr>amount := round2 (amount deadline)\<rparr>) vatDeadlines,
         inpsAdmin = round2 inpsAdmin,
         inpsEmployees = round2 inpsEmployees,
         inpsTotalAmount = round2 inpsTotalAmount,
         totalTaxes = roundCents totalTaxes,
         totalDue = roundCents totalDue,
         iresFirstAcconto = round2 iresFirstAcconto,
         iresSecondAcconto = round2 iresSecondAcconto,
         irapFirstAcconto = roundCents irapFirstAcconto,
         irapSecondAcconto = roundCents irapSecondAcconto,
         accontiDetailsR = accontiDetails,
         monthlyAccrual = roundCents monthlyAccrual,
         quarterlyPayments = round2 quarterlyPayments,
         calendar2025 = calendar2025,
         paymentSchedule = paymentSchedule\<rparr>)"

subsection \<open>Sample inputs\<close>

text \<open>Concrete inputs on which the theorems below are exercised. \<open>zeroInput\<close> has every
  amount zero and every optional field absent; \<open>scenario\<close> is the scenario of the
  specification (a company started in 2023, quarterly VAT, region LAZIO); the others
  change a few fields of one of the two.\<close>

definition zeroInput :: SRLTaxCalculationInput where
  "zeroInput = \<lparr>revenue = 0, costs = 0, employees = 0, employeeCosts = 0, adminSalary = 0,
     region = ''LAZIO'', businessSector = [], vatRegime = ''TRIMESTRALE'', hasVatDebt = False,
     vatDebt = 0, currentBalance = 0, startDate = None, startYear = None, vatOnSales = None,
     vatOnPurchases = None, fiscalYear = None, revenue2024 = None, costs2024 = None,
     utile2024 = None, utile2023 = None, investimentiPrevisti = None, mediaULA2022_2024 = None,
     dipendentiTempo2024 = None, nuoveAssunzioni2025 = None, hasUsedCIG = None,
     interessiAttivi = None, interessiPassivi = None, rolFiscale = None,
     perditePregresseOrdinarie = None, perditePrimi3Esercizi = None,
     costoNuoveAssunzioni = None, incrementoCostoPersonale = None\<rparr>"

definition scenario :: SRLTaxCalculationInput where
  "scenario = zeroInput\<lparr>revenue := 500000, costs := 300000, employees := 2,
     employeeCosts := 80000, adminSalary := 40000, fiscalYear := Some 2025,
     startYear := Some 2023\<rparr>"

definition lossesInput :: SRLTaxCalculationInput where
  "lossesInput = zeroInput\<lparr>perditePrimi3Esercizi := Some 30, perditePregresseOrdinarie := Some 100\<rparr>"

definition lossMakingInput :: SRLTaxCalculationInput where
  "lossMakingInput = zeroInput\<lparr>costs := 100\<rparr>"

definition negativeBalanceInput :: SRLTaxCalculationInput where
  "negativeBalanceInput = scenario\<lparr>currentBalance := - 20000\<rparr>"

definition monthlyInput :: SRLTaxCalculationInput where
  "monthlyInput = scenario\<lparr>vatRegime := ''MENSILE''\<rparr>"

definition unknownRegimeInput :: SRLTaxCalculationInput where
  "unknownRegimeInput = scenario\<lparr>vatRegime := ''ANNUALE''\<rparr>"

text \<open>The five conditions of the preferential rate satisfied, the fiscal year left out.\<close>

definition premialeInput :: SRLTaxCalculationInput where
  "premialeInput = zeroInput\<lparr>revenue := 200000, utile2024 := Some 100000,
     investimentiPrevisti := Some 25000, mediaULA2022_2024 := Some 5,
     dipendentiTempo2024 := Some 5, nuoveAssunzioni2025 := Some 1, hasUsedCIG := Some False\<rparr>"

definition newIn2024Input :: SRLTaxCalculationInput where
  "newIn2024Input = zeroInput\<lparr>revenue := 100000, fiscalYear := Some 2024, startYear := Some 2024\<rparr>"

definition newIn2025Input :: SRLTaxCalculationInput where
  "newIn2025Input = scenario\<lparr>startYear := Some 2025\<rparr>"

definition badDateInput :: SRLTaxCalculationInput where
  "badDateInput = scenario\<lparr>startYear := None, startDate := Some ''not a date''\<rparr>"

text \<open>The scenario with a region string that names an inherited member.\<close>

definition inheritedRegionInput :: SRLTaxCalculationInput where
  "inheritedRegionInput = scenario\<lparr>region := ''constructor''\<rparr>"

text \<open>The scenario with a start date in place of the start year, and two parsers: the
  ISO date \<open>2025-01-01\<close> is midnight UTC, whose year in local time is 2025 east of
  Greenwich and 2024 west of it.\<close>

definition newYearInput :: SRLTaxCalculationInput where
  "newYearInput = scenario\<lparr>startYear := None, startDate := Some ''2025-01-01''\<rparr>"

definition readsYear2025 :: "string \<Rightarrow> int option" where
  "readsYear2025 s = Some 2025"

definition readsYear2024 :: "string \<Rightarrow> int option" where
  "readsYear2024 s = Some 2024"

text \<open>Inputs with one negative amount each.\<close>

definition negativeSalaryInput :: SRLTaxCalculationInput where
  "negativeSalaryInput = zeroInput\<lparr>revenue := 100, adminSalary := - 50\<rparr>"

definition negativeHiringCostInput :: SRLTaxCalculationInput where
  "negativeHiringCostInput = zeroInput\<lparr>revenue := 100, costoNuoveAssunzioni := Some (- 100)\<rparr>"

definition negativeLossesInput :: SRLTaxCalculationInput where
  "negativeLossesInput = zeroInput\<lparr>revenue := 100, perditePrimi3Esercizi := Some (- 50)\<rparr>"

definition negativeOrdinaryLossesInput :: SRLTaxCalculationInput where
  "negativeOrdinaryLossesInput =
     zeroInput\<lparr>revenue := 100, perditePregresseOrdinarie := Some (- 50)\<rparr>"

text \<open>A date parser that reads no string, and three instants: midnight (UTC) of the first
  of January 2025, of the first of December 2025 and of the first of February 2026.\<close>

definition rejectAll :: "string \<Rightarrow> int option" where
  "rejectAll s = None"

definition jan1 :: instant where
  "jan1 = ((2025, 1, 1), 0)"

definition dec1 :: instant where
  "dec1 = ((2025, 12, 1), 0)"

definition feb1 :: instant where
  "feb1 = ((2026, 2, 1), 0)"

section \<open>Properties\<close>

subsection \<open>Arithmetic with \<open>NaN\<close>\<close>

lemma number_plus [simp]:
  "Num a + Num b = Num (a + b)" "NaN + y = NaN" "x + NaN = NaN"
  by (simp_all add: plus_number_def split: number.splits)

lemma number_minus [simp]:
  "Num a - Num b = Num (a - b)" "NaN - y = NaN" "x - NaN = NaN"
  by (simp_all add: minus_number_def split: number.splits)

lemma number_times [simp]:
  "Num a * Num b = Num (a * b)" "NaN * y = NaN" "x * NaN = NaN"
  by (simp_all add: times_number_def split: number.splits)

lemma number_divide [simp]:
  "Num a / Num b = Num (a / b)" "NaN / y = NaN" "x / NaN = NaN"
  by (simp_all add: divide_number_def split: number.splits)

lemma number_zero [simp]: "(0::number) = Num 0"
  by (simp add: zero_number_def)

lemma number_tests [simp]:
  "isNegative (Num a) = (a < 0)" "isNegative NaN = False"
  "isPositive (Num a) = (0 < a)" "isPositive NaN = False"
  by (simp_all add: isNegative_def isPositive_def)

lemma number_abs_round [simp]:
  "Math_abs (Num a) = Num \<bar>a\<bar>" "Math_abs NaN = NaN"
  "roundCents (Num a) = Num (round2 a)" "roundCents NaN = NaN"
  by (simp_all add: Math_abs_def roundCents_def)

subsection \<open>Rounding to cents\<close>

lemma round2_mono: "x \<le> y \<Longrightarrow> round2 x \<le> round2 y"
  unfolding round2_def Math_round_def
  by (intro divide_right_mono of_int_le_iff[THEN iffD2] floor_mono) simp_all

lemma round2_zero: "round2 0 = 0"
  by (simp add: round2_def Math_round_def)

lemma round2_nonneg: "0 \<le> x \<Longrightarrow> 0 \<le> round2 x"
  using round2_mono[of 0 x] by (simp add: round2_zero)

lemma round2_max0: "round2 (max 0 x) = max 0 (round2 x)"
  using round2_mono[of 0 x] round2_mono[of x 0] by (auto simp: max_def round2_zero)

lemma round2_err: "\<bar>round2 x - x\<bar> \<le> 1 / 200"
proof -
  define n :: real where "n = of_int \<lfloor>x * 100 + 1 / 2\<rfloor>"
  have "n \<le> x * 100 + 1 / 2" and "x * 100 + 1 / 2 < n + 1"
    unfolding n_def by linarith+
  then have "\<bar>n / 100 - x\<bar> \<le> 1 / 200"
    by linarith
  then show ?thesis
    by (simp add: round2_def Math_round_def n_def)
qed

subsection \<open>The resolvers\<close>

text \<open>Over the exact reals of this model the non-deductible interest is never negative. The
  source computes it in binary floating point as \<open>interessiPassivi -
  interessiPassiviDeducibili\<close>, where the sum \<open>interessiPassiviDeducibili\<close> is rounded and the
  difference can be a negative residue; the theorem on the taxable income below therefore
  takes the sign of the interest as a hypothesis and does not use this lemma.\<close>

lemma indeducibili_nonneg: "0 \<le> interessiPassiviIndeducibili (calculateROLAndInterests i)"
  by (simp add: calculateROLAndInterests_def Let_def min_def)

lemma primi3Used_le: "perditePrimi3Used r i \<le> orElse (perditePrimi3Esercizi i) 0"
  and primi3Used_le_reddito: "perditePrimi3Used r i \<le> r"
  by (simp_all add: perditePrimi3Used_def)

lemma ordinarieUsed_le: "perditeOrdinarieUsed r i \<le> orElse (perditePregresseOrdinarie i) 0"
  unfolding perditeOrdinarieUsed_def Let_def by (rule min.cobounded1)

lemma ordinarieUsed_le_cap: "perditeOrdinarieUsed r i \<le> (r - perditePrimi3Used r i) * 0.8"
  unfolding perditeOrdinarieUsed_def Let_def by (rule min.cobounded2)

text \<open>
  Claim C9. In \<open>calculateLossesUsage\<close>: when the pre-loss taxable income is at most
  zero, no losses are used and the ordinary-loss balance comes back as supplied (zero
  when absent). When it is positive, the losses of the first three years are used first,
  up to the whole income; the ordinary losses are then used up to 80% of the income that
  remains; the total returned is the sum of the two and the balance returned is the
  ordinary losses left; and neither kind is used beyond the amount available.
\<close>

theorem losses_usage:
  "(reddito \<le> 0 \<longrightarrow>
      lossesUsed (calculateLossesUsage reddito i) = 0 \<and>
      remainingLosses (calculateLossesUsage reddito i) = orElse (perditePregresseOrdinarie i) 0) \<and>
   (0 < reddito \<longrightarrow>
      perditePrimi3Used reddito i = min (orElse (perditePrimi3Esercizi i) 0) reddito \<and>
      perditeOrdinarieUsed reddito i =
        min (orElse (perditePregresseOrdinarie i) 0) ((reddito - perditePrimi3Used reddito i) * 0.8) \<and>
      lossesUsed (calculateLossesUsage reddito i) =
        perditePrimi3Used reddito i + perditeOrdinarieUsed reddito i \<and>
      remainingLosses (calculateLossesUsage reddito i) =
        orElse (perditePregresseOrdinarie i) 0 - perditeOrdinarieUsed reddito i \<and>
      perditePrimi3Used reddito i \<le> orElse (perditePrimi3Esercizi i) 0 \<and>
      perditeOrdinarieUsed reddito i \<le> orElse (perditePregresseOrdinarie i) 0)"
proof (intro conjI impI)
  assume "reddito \<le> 0"
  then show "lossesUsed (calculateLossesUsage reddito i) = 0"
    and "remainingLosses (calculateLossesUsage reddito i) = orElse (perditePregresseOrdinarie i) 0"
    by (simp_all add: calculateLossesUsage_def)
next
  show "perditePrimi3Used reddito i = min (orElse (perditePrimi3Esercizi i) 0) reddito"
    by (simp add: perditePrimi3Used_def)
  show "perditeOrdinarieUsed reddito i =
        min (orElse (perditePregresseOrdinarie i) 0) ((reddito - perditePrimi3Used reddito i) * 0.8)"
    by (simp add: perditeOrdinarieUsed_def Let_def)
  show "perditePrimi3Used reddito i \<le> orElse (perditePrimi3Esercizi i) 0"
    by (rule primi3Used_le)
  show "perditeOrdinarieUsed reddito i \<le> orElse (perditePregresseOrdinarie i) 0"
    by (rule ordinarieUsed_le)
next
  assume "0 < reddito"
  then show "lossesUsed (calculateLossesUsage reddito i) =
        perditePrimi3Used reddito i + perditeOrdinarieUsed reddito i"
    and "remainingLosses (calculateLossesUsage reddito i) =
        orElse (perditePregresseOrdinarie i) 0 - perditeOrdinarieUsed reddito i"
    by (simp_all add: calculateLossesUsage_def Let_def)
qed

theorem losses_usage_witness:
  "(0::real) \<le> 0 \<and> lossesUsed (calculateLossesUsage 0 lossesInput) = 0 \<and>
   remainingLosses (calculateLossesUsage 0 lossesInput) = 100 \<and>
   (0::real) < 100 \<and>
   perditePrimi3Used 100 lossesInput = 30 \<and>
   perditeOrdinarieUsed 100 lossesInput = 56 \<and>
   lossesUsed (calculateLossesUsage 100 lossesInput) = 86 \<and>
   remainingLosses (calculateLossesUsage 100 lossesInput) = 44"
proof -
  have p3: "orElse (perditePrimi3Esercizi lossesInput) 0 = 30"
    and po: "orElse (perditePregresseOrdinarie lossesInput) 0 = 100"
    by (simp_all add: lossesInput_def zeroInput_def orElse_def)
  show ?thesis
    using losses_usage [of 0 lossesInput] losses_usage [of 100 lossesInput]
    by (simp add: p3 po)
qed

subsection \<open>Signs of the amounts\<close>

lemma irapRateOf_table:
  "map_of IRAP_RATES r = Some v \<Longrightarrow> irapRateOf r = Num (v / 100) \<and> 0 < v"
proof -
  assume m: "map_of IRAP_RATES r = Some v"
  then have "(r, v) \<in> set IRAP_RATES" by (rule map_of_SomeD)
  then have "0 < v" by (auto simp: IRAP_RATES_def)
  with m show ?thesis by (simp add: irapRateOf_def orElse_def)
qed

lemma irapRateOf_own: "r \<notin> set objectPrototypeMembers \<Longrightarrow> \<exists>v. irapRateOf r = Num v \<and> 0 < v"
proof (cases "map_of IRAP_RATES r")
  case None
  assume "r \<notin> set objectPrototypeMembers"
  with None have "irapRateOf r = Num (3.9 / 100)" by (simp add: irapRateOf_def)
  moreover have "(0::real) < 3.9 / 100" by simp
  ultimately show ?thesis by blast
next
  case (Some v)
  then have "irapRateOf r = Num (v / 100)" and "0 < v / 100"
    using irapRateOf_table [OF Some] by simp_all
  then show ?thesis by blast
qed

lemma IRAP_RATES_no_inherited: "r \<in> set objectPrototypeMembers \<Longrightarrow> map_of IRAP_RATES r = None"
proof -
  have "\<forall>m \<in> set objectPrototypeMembers. map_of IRAP_RATES m = None"
    by (simp add: objectPrototypeMembers_def IRAP_RATES_def)
  then show "r \<in> set objectPrototypeMembers \<Longrightarrow> ?thesis" by blast
qed

lemma irapRateOf_inherited: "r \<in> set objectPrototypeMembers \<Longrightarrow> irapRateOf r = NaN"
  by (simp add: irapRateOf_def IRAP_RATES_no_inherited)

lemma irapRateOf_cases: "irapRateOf r = NaN \<or> (\<exists>v. irapRateOf r = Num v \<and> 0 < v)"
  using irapRateOf_inherited [of r] irapRateOf_own [of r] by blast

lemma iresRate_cases: "0 \<le> (if b then 0.20 else 0.24 :: real)"
  by simp

lemma vatAmount_raw_nonneg:
  "0 \<le> (if hasVatDebt i \<and> 0 < vatDebt i then max 0 x + vatDebt i else max 0 (x::real))"
  by simp

lemma inpsAdmin_raw_nonneg:
  "0 \<le> (if 0 < (a::real) then max 18324 (min a 105014) * 0.24 else 0)"
  by simp

lemma inpsEmployees_raw_nonneg:
  "0 \<le> (if 0 < (e::real) \<and> 0 < c then c * 0.30 else (0::real))"
  by simp

lemma iresAmount_nonneg: "0 \<le> iresAmount (calculateSRLTaxes g t i)"
  apply (simp only: calculateSRLTaxes_def Let_def SRLTaxCalculationResult.select_convs)
  apply (intro round2_nonneg mult_nonneg_nonneg max.cobounded1 iresRate_cases)
  done

lemma vatAmount_nonneg: "0 \<le> vatAmount (calculateSRLTaxes g t i)"
  apply (simp only: calculateSRLTaxes_def Let_def SRLTaxCalculationResult.select_convs)
  apply (intro round2_nonneg)
  apply (simp only: vatAmount_raw_nonneg)
  done

lemma inpsAdmin_nonneg: "0 \<le> inpsAdmin (calculateSRLTaxes g t i)"
  apply (simp only: calculateSRLTaxes_def Let_def SRLTaxCalculationResult.select_convs)
  apply (intro round2_nonneg inpsAdmin_raw_nonneg)
  done

lemma inpsEmployees_nonneg: "0 \<le> inpsEmployees (calculateSRLTaxes g t i)"
  apply (simp only: calculateSRLTaxes_def Let_def SRLTaxCalculationResult.select_convs)
  apply (intro round2_nonneg inpsEmployees_raw_nonneg)
  done

lemma inpsTotalAmount_nonneg: "0 \<le> inpsTotalAmount (calculateSRLTaxes g t i)"
  apply (simp only: calculateSRLTaxes_def Let_def SRLTaxCalculationResult.select_convs)
  apply (intro round2_nonneg add_nonneg_nonneg inpsAdmin_raw_nonneg inpsEmployees_raw_nonneg)
  done

text \<open>The three amounts that contain the regional rate, with the real parts named.\<close>

lemma irap_fields:
  "\<exists>x y z w.
     irapRate (calculateSRLTaxes g t i) = irapRateOf (region i) \<and>
     irapAmount (calculateSRLTaxes g t i) = roundCents (Num y * irapRateOf (region i)) \<and>
     totalTaxes (calculateSRLTaxes g t i) = roundCents (Num x + Num y * irapRateOf (region i)) \<and>
     totalDue (calculateSRLTaxes g t i) =
       roundCents (Num x + Num y * irapRateOf (region i) + Num z + Num w) \<and>
     0 \<le> x \<and> 0 \<le> y \<and> 0 \<le> z \<and> 0 \<le> w"
  apply (simp only: calculateSRLTaxes_def Let_def SRLTaxCalculationResult.select_convs)
  apply (intro exI conjI)
         apply (rule refl)+
     apply (intro mult_nonneg_nonneg max.cobounded1 iresRate_cases)
    apply (rule max.cobounded1)
   apply (intro add_nonneg_nonneg inpsAdmin_raw_nonneg inpsEmployees_raw_nonneg)
  apply (rule vatAmount_raw_nonneg)
  done

text \<open>For a region that is not an inherited member, one of the table or any other string,
  the eight amounts of claim C10 are non-negative.\<close>

lemma amounts_nonneg_other_regions:
  assumes "region i \<notin> set objectPrototypeMembers"
  shows "0 \<le> iresAmount (calculateSRLTaxes g t i) \<and>
         (\<exists>a. irapAmount (calculateSRLTaxes g t i) = Num a \<and> 0 \<le> a) \<and>
         0 \<le> vatAmount (calculateSRLTaxes g t i) \<and>
         0 \<le> inpsAdmin (calculateSRLTaxes g t i) \<and>
         0 \<le> inpsEmployees (calculateSRLTaxes g t i) \<and>
         0 \<le> inpsTotalAmount (calculateSRLTaxes g t i) \<and>
         (\<exists>a. totalTaxes (calculateSRLTaxes g t i) = Num a \<and> 0 \<le> a) \<and>
         (\<exists>a. totalDue (calculateSRLTaxes g t i) = Num a \<and> 0 \<le> a)"
proof -
  obtain v where v: "irapRateOf (region i) = Num v" "0 < v"
    using irapRateOf_own [OF assms] by blast
  obtain x y z w where f:
    "irapAmount (calculateSRLTaxes g t i) = roundCents (Num y * irapRateOf (region i))"
    "totalTaxes (calculateSRLTaxes g t i) = roundCents (Num x + Num y * irapRateOf (region i))"
    "totalDue (calculateSRLTaxes g t i) =
       roundCents (Num x + Num y * irapRateOf (region i) + Num z + Num w)"
    and s: "0 \<le> x" "0 \<le> y" "0 \<le> z" "0 \<le> w"
    using irap_fields [of g t i] by blast
  have yv: "0 \<le> y * v" using s(2) v(2) by simp
  have 1: "\<exists>a. irapAmount (calculateSRLTaxes g t i) = Num a \<and> 0 \<le> a"
  proof (intro exI conjI)
    show "irapAmount (calculateSRLTaxes g t i) = Num (round2 (y * v))"
      by (simp only: f v number_times number_abs_round)
    show "0 \<le> round2 (y * v)" using yv by (rule round2_nonneg)
  qed
  have 2: "\<exists>a. totalTaxes (calculateSRLTaxes g t i) = Num a \<and> 0 \<le> a"
  proof (intro exI conjI)
    show "totalTaxes (calculateSRLTaxes g t i) = Num (round2 (x + y * v))"
      by (simp only: f v number_times number_plus number_abs_round)
    show "0 \<le> round2 (x + y * v)" using yv s by (intro round2_nonneg add_nonneg_nonneg)
  qed
  have 3: "\<exists>a. totalDue (calculateSRLTaxes g t i) = Num a \<and> 0 \<le> a"
  proof (intro exI conjI)
    show "totalDue (calculateSRLTaxes g t i) = Num (round2 (x + y * v + z + w))"
      by (simp only: f v number_times number_plus number_abs_round)
    show "0 \<le> round2 (x + y * v + z + w)"
      using yv s by (intro round2_nonneg add_nonneg_nonneg)
  qed
  show ?thesis
    by (intro conjI 1 2 3 iresAmount_nonneg vatAmount_nonneg inpsAdmin_nonneg
          inpsEmployees_nonneg inpsTotalAmount_nonneg)
qed

text \<open>
  Claim C10, at the input where the code departs from it. The claim reads: for every input
  record the returned \<open>iresAmount\<close>, \<open>irapAmount\<close>, \<open>vatAmount\<close>, \<open>inpsAdmin\<close>,
  \<open>inpsEmployees\<close>, \<open>inpsTotalAmount\<close>, \<open>totalTaxes\<close> and \<open>totalDue\<close> are non-negative. For
  the region \<open>constructor\<close> the lookup \<open>IRAP_RATES[region] || 3.9\<close> does not fall back to the
  default rate: it finds the inherited member, the rate is \<open>NaN\<close>, and \<open>irapAmount\<close>,
  \<open>totalTaxes\<close> and \<open>totalDue\<close> are \<open>NaN\<close>, which is not a non-negative number.
\<close>

theorem inherited_region_amounts:
  "irapRate (calculateSRLTaxes rejectAll dec1 inheritedRegionInput) = NaN \<and>
   irapAmount (calculateSRLTaxes rejectAll dec1 inheritedRegionInput) = NaN \<and>
   totalTaxes (calculateSRLTaxes rejectAll dec1 inheritedRegionInput) = NaN \<and>
   totalDue (calculateSRLTaxes rejectAll dec1 inheritedRegionInput) = NaN"
proof -
  have r: "irapRateOf (region inheritedRegionInput) = NaN"
    by (rule irapRateOf_inherited)
       (simp add: inheritedRegionInput_def scenario_def zeroInput_def objectPrototypeMembers_def)
  obtain x y z w where
    "irapRate (calculateSRLTaxes rejectAll dec1 inheritedRegionInput)
       = irapRateOf (region inheritedRegionInput)"
    "irapAmount (calculateSRLTaxes rejectAll dec1 inheritedRegionInput)
       = roundCents (Num y * irapRateOf (region inheritedRegionInput))"
    "totalTaxes (calculateSRLTaxes rejectAll dec1 inheritedRegionInput)
       = roundCents (Num x + Num y * irapRateOf (region inheritedRegionInput))"
    "totalDue (calculateSRLTaxes rejectAll dec1 inheritedRegionInput)
       = roundCents (Num x + Num y * irapRateOf (region inheritedRegionInput) + Num z + Num w)"
    using irap_fields [of rejectAll dec1 inheritedRegionInput] by blast
  then show ?thesis by (simp only: r number_times number_plus number_abs_round simp_thms)
qed

subsection \<open>The taxable income\<close>

lemma grossProfit_calc:
  "grossProfit (calculateSRLTaxes g t i) = round2 (revenue i - costs i - employeeCosts i)"
  by (simp only: calculateSRLTaxes_def Let_def SRLTaxCalculationResult.select_convs)

lemma taxableIncome_calc:
  "taxableIncome (calculateSRLTaxes g t i) =
     round2 (max 0 (max 0 (revenue i - costs i - employeeCosts i - adminSalary i)
                     - interessiPassiviIndeducibili (calculateROLAndInterests i)
                     - calculateSuperDeduction i))"
  by (simp only: calculateSRLTaxes_def Let_def SRLTaxCalculationResult.select_convs)

lemma taxableIncomeAfterLosses_calc:
  "taxableIncomeAfterLosses (calculateSRLTaxes g t i) =
     round2 (max 0 (max 0 (max 0 (revenue i - costs i - employeeCosts i - adminSalary i)
                     - interessiPassiviIndeducibili (calculateROLAndInterests i)
                     - calculateSuperDeduction i)
             - lossesUsed (calculateLossesUsage
                 (max 0 (max 0 (revenue i - costs i - employeeCosts i - adminSalary i)
                     - interessiPassiviIndeducibili (calculateROLAndInterests i)
                     - calculateSuperDeduction i)) i)))"
  by (simp only: calculateSRLTaxes_def Let_def SRLTaxCalculationResult.select_convs)

lemma lossesUsed_nonneg:
  assumes "0 \<le> orElse (perditePrimi3Esercizi i) 0" "0 \<le> orElse (perditePregresseOrdinarie i) 0"
  shows "0 \<le> lossesUsed (calculateLossesUsage r i)"
proof (cases "r \<le> 0")
  case True
  then show ?thesis by (simp add: calculateLossesUsage_def)
next
  case False
  have a: "0 \<le> perditePrimi3Used r i"
    using assms(1) False by (simp add: perditePrimi3Used_def)
  have "0 \<le> (r - perditePrimi3Used r i) * 0.8"
    using primi3Used_le_reddito [of r i] by simp
  then have b: "0 \<le> perditeOrdinarieUsed r i"
    using assms(2) unfolding perditeOrdinarieUsed_def Let_def by (rule_tac min.boundedI)
  from a b False show ?thesis by (simp add: calculateLossesUsage_def Let_def)
qed

text \<open>
  Claim C2, as the code has it. The claim reads
  \<open>taxableIncomeAfterLosses \<le> taxableIncome \<le> grossProfit\<close> for every input. For every
  input the two taxable incomes are non-negative, the base being floored at zero. The
  first inequality holds when the two carried-forward losses are non-negative, the
  second with \<open>max 0 grossProfit\<close> in place of \<open>grossProfit\<close>, which is not floored, when the
  three amounts subtracted on the way, the administrator's salary, the non-deductible
  interest as \<open>calculateROLAndInterests\<close> computes it and the super-deduction, are
  non-negative.
\<close>

theorem taxable_income_chain:
  "0 \<le> taxableIncomeAfterLosses (calculateSRLTaxes g t i) \<and>
   0 \<le> taxableIncome (calculateSRLTaxes g t i) \<and>
   (0 \<le> orElse (perditePrimi3Esercizi i) 0 \<and> 0 \<le> orElse (perditePregresseOrdinarie i) 0 \<longrightarrow>
      taxableIncomeAfterLosses (calculateSRLTaxes g t i) \<le> taxableIncome (calculateSRLTaxes g t i)) \<and>
   (0 \<le> adminSalary i \<and>
    0 \<le> interessiPassiviIndeducibili (calculateROLAndInterests i) \<and>
    0 \<le> calculateSuperDeduction i \<longrightarrow>
      taxableIncome (calculateSRLTaxes g t i) \<le> max 0 (grossProfit (calculateSRLTaxes g t i)))"
proof -
  define G where "G = revenue i - costs i - employeeCosts i"
  define T where "T = max 0 (max 0 (G - adminSalary i)
                     - interessiPassiviIndeducibili (calculateROLAndInterests i)
                     - calculateSuperDeduction i)"
  define U where "U = lossesUsed (calculateLossesUsage T i)"
  have T0: "0 \<le> T" by (simp add: T_def)
  have g: "grossProfit (calculateSRLTaxes g t i) = round2 G"
    by (simp add: grossProfit_calc G_def)
  have t: "taxableIncome (calculateSRLTaxes g t i) = round2 T"
    by (simp add: taxableIncome_calc T_def G_def)
  have a: "taxableIncomeAfterLosses (calculateSRLTaxes g t i) = round2 (max 0 (T - U))"
    by (simp add: taxableIncomeAfterLosses_calc U_def T_def G_def)
  have 1: "0 \<le> round2 (max 0 (T - U))" by (rule round2_nonneg) simp
  have 2: "0 \<le> round2 T" using T0 by (rule round2_nonneg)
  have 3: "round2 (max 0 (T - U)) \<le> round2 T"
    if "0 \<le> orElse (perditePrimi3Esercizi i) 0" "0 \<le> orElse (perditePregresseOrdinarie i) 0"
  proof -
    have "0 \<le> U" unfolding U_def using that by (rule lossesUsed_nonneg)
    then have "max 0 (T - U) \<le> T" using T0 by simp
    then show ?thesis by (rule round2_mono)
  qed
  have 4: "round2 T \<le> max 0 (round2 G)"
    if "0 \<le> adminSalary i" "0 \<le> interessiPassiviIndeducibili (calculateROLAndInterests i)"
      "0 \<le> calculateSuperDeduction i"
  proof -
    have "T \<le> max 0 G" using that by (simp add: T_def max_def)
    from round2_mono [OF this] show ?thesis by (simp add: round2_max0)
  qed
  from 1 2 3 4 show ?thesis unfolding g t a by blast
qed

theorem taxable_income_chain_witness:
  "0 \<le> orElse (perditePrimi3Esercizi scenario) 0 \<and>
   0 \<le> orElse (perditePregresseOrdinarie scenario) 0 \<and>
   0 \<le> adminSalary scenario \<and>
   0 \<le> interessiPassiviIndeducibili (calculateROLAndInterests scenario) \<and>
   0 \<le> calculateSuperDeduction scenario \<and>
   taxableIncomeAfterLosses (calculateSRLTaxes rejectAll jan1 scenario) = 80000 \<and>
   taxableIncome (calculateSRLTaxes rejectAll jan1 scenario) = 80000 \<and>
   grossProfit (calculateSRLTaxes rejectAll jan1 scenario) = 120000 \<and>
   0 \<le> taxableIncomeAfterLosses (calculateSRLTaxes rejectAll jan1 scenario) \<and>
   taxableIncomeAfterLosses (calculateSRLTaxes rejectAll jan1 scenario)
     \<le> taxableIncome (calculateSRLTaxes rejectAll jan1 scenario) \<and>
   taxableIncome (calculateSRLTaxes rejectAll jan1 scenario)
     \<le> max 0 (grossProfit (calculateSRLTaxes rejectAll jan1 scenario))"
proof -
  have h: "0 \<le> orElse (perditePrimi3Esercizi scenario) 0"
    "0 \<le> orElse (perditePregresseOrdinarie scenario) 0"
    "0 \<le> adminSalary scenario"
    "0 \<le> interessiPassiviIndeducibili (calculateROLAndInterests scenario)"
    "0 \<le> calculateSuperDeduction scenario"
    by (simp_all add: scenario_def zeroInput_def orElse_def calculateSuperDeduction_def
          calculateROLAndInterests_def)
  have "grossProfit (calculateSRLTaxes rejectAll jan1 scenario) = 120000"
    by (simp add: grossProfit_calc scenario_def zeroInput_def round2_def Math_round_def)
  moreover have "taxableIncome (calculateSRLTaxes rejectAll jan1 scenario) = 80000"
    by (simp add: taxableIncome_calc scenario_def zeroInput_def round2_def Math_round_def
          calculateROLAndInterests_def calculateSuperDeduction_def orElse_def)
  moreover have "taxableIncomeAfterLosses (calculateSRLTaxes rejectAll jan1 scenario) = 80000"
    by (simp add: taxableIncomeAfterLosses_calc scenario_def zeroInput_def round2_def Math_round_def
          calculateROLAndInterests_def calculateSuperDeduction_def orElse_def
          calculateLossesUsage_def perditePrimi3Used_def perditeOrdinarieUsed_def)
  ultimately show ?thesis
    using taxable_income_chain [of rejectAll jan1 scenario] h by simp
qed

text \<open>
  Claim C2 as stated fails, and the hypotheses on the salary, the new-hire costs and the
  losses are needed. With costs of 100 and no revenue, \<open>grossProfit\<close> is \<open>-100\<close> and
  \<open>taxableIncome\<close> is \<open>0\<close>. With revenue 100 and a salary of \<open>-50\<close>, or new-hire costs of
  \<open>-100\<close> (a super-deduction of \<open>-20\<close>), \<open>taxableIncome\<close> is 150 or 120 and exceeds the
  gross profit of 100. With revenue 100 and first-three-year losses of \<open>-50\<close>, or ordinary
  losses of \<open>-50\<close>, \<open>taxableIncomeAfterLosses\<close> is 150 and exceeds the \<open>taxableIncome\<close> of
  100.
\<close>

theorem taxable_income_chain_counterexample:
  "\<not> taxableIncome (calculateSRLTaxes rejectAll jan1 lossMakingInput)
       \<le> grossProfit (calculateSRLTaxes rejectAll jan1 lossMakingInput) \<and>
   \<not> taxableIncome (calculateSRLTaxes rejectAll jan1 negativeSalaryInput)
       \<le> max 0 (grossProfit (calculateSRLTaxes rejectAll jan1 negativeSalaryInput)) \<and>
   \<not> taxableIncome (calculateSRLTaxes rejectAll jan1 negativeHiringCostInput)
       \<le> max 0 (grossProfit (calculateSRLTaxes rejectAll jan1 negativeHiringCostInput)) \<and>
   \<not> taxableIncomeAfterLosses (calculateSRLTaxes rejectAll jan1 negativeLossesInput)
       \<le> taxableIncome (calculateSRLTaxes rejectAll jan1 negativeLossesInput) \<and>
   \<not> taxableIncomeAfterLosses (calculateSRLTaxes rejectAll jan1 negativeOrdinaryLossesInput)
       \<le> taxableIncome (calculateSRLTaxes rejectAll jan1 negativeOrdinaryLossesInput)"
proof -
  have 1: "grossProfit (calculateSRLTaxes rejectAll jan1 lossMakingInput) = - 100"
    "taxableIncome (calculateSRLTaxes rejectAll jan1 lossMakingInput) = 0"
    by (simp_all add: grossProfit_calc taxableIncome_calc lossMakingInput_def zeroInput_def
          round2_def Math_round_def calculateROLAndInterests_def calculateSuperDeduction_def
          orElse_def)
  have 2: "grossProfit (calculateSRLTaxes rejectAll jan1 negativeSalaryInput) = 100"
    "taxableIncome (calculateSRLTaxes rejectAll jan1 negativeSalaryInput) = 150"
    by (simp_all add: grossProfit_calc taxableIncome_calc negativeSalaryInput_def zeroInput_def
          round2_def Math_round_def calculateROLAndInterests_def calculateSuperDeduction_def
          orElse_def)
  have 3: "grossProfit (calculateSRLTaxes rejectAll jan1 negativeHiringCostInput) = 100"
    "taxableIncome (calculateSRLTaxes rejectAll jan1 negativeHiringCostInput) = 120"
    by (simp_all add: grossProfit_calc taxableIncome_calc negativeHiringCostInput_def
          zeroInput_def round2_def Math_round_def calculateROLAndInterests_def
          calculateSuperDeduction_def orElse_def)
  have 4: "taxableIncome (calculateSRLTaxes rejectAll jan1 negativeLossesInput) = 100"
    "taxableIncomeAfterLosses (calculateSRLTaxes rejectAll jan1 negativeLossesInput) = 150"
    by (simp_all add: taxableIncome_calc taxableIncomeAfterLosses_calc negativeLossesInput_def
          zeroInput_def round2_def Math_round_def calculateROLAndInterests_def
          calculateSuperDeduction_def orElse_def calculateLossesUsage_def
          perditePrimi3Used_def perditeOrdinarieUsed_def)
  have 5: "taxableIncome (calculateSRLTaxes rejectAll jan1 negativeOrdinaryLossesInput) = 100"
    "taxableIncomeAfterLosses (calculateSRLTaxes rejectAll jan1 negativeOrdinaryLossesInput) = 150"
    by (simp_all add: taxableIncome_calc taxableIncomeAfterLosses_calc
          negativeOrdinaryLossesInput_def zeroInput_def round2_def Math_round_def
          calculateROLAndInterests_def calculateSuperDeduction_def orElse_def
          calculateLossesUsage_def perditePrimi3Used_def perditeOrdinarieUsed_def)
  show ?thesis by (simp add: 1 2 3 4 5)
qed

subsection \<open>The payment schedule\<close>

text \<open>The two branches of the replay loop, and after them the defining equation is no
  longer a rewrite rule.\<close>

lemma replay_income:
  "isIncome ev \<Longrightarrow> replay b (ev # rest) =
     \<lparr>date = date ev, amount = amount ev, type = type ev, category = category ev,
      description = description ev, isIncome = True,
      previousBalance = roundCents b, newBalance = roundCents (b + amount ev),
      deficit = round2 (case b + amount ev of Num c \<Rightarrow> if c < 0 then \<bar>c\<bar> else 0 | NaN \<Rightarrow> 0),
      requiredPayment = roundCents (amount ev)\<rparr> # replay (b + amount ev) rest"
  by (simp add: Let_def)

lemma replay_payment:
  "\<not> isIncome ev \<Longrightarrow> replay b (ev # rest) =
     \<lparr>date = date ev, amount = amount ev, type = type ev, category = category ev,
      description = description ev, isIncome = False,
      previousBalance = roundCents b,
      newBalance = roundCents (if isNegative (b - amount ev) then 0 else b - amount ev),
      deficit = 0,
      requiredPayment =
        roundCents (if isNegative (b - amount ev) then Math_abs (b - amount ev) else 0)\<rparr>
     # replay (if isNegative (b - amount ev) then 0 else b - amount ev) rest"
  by (cases "b - amount ev") (simp_all add: Let_def round2_zero)

declare replay.simps(2) [simp del]

lemma replay_payment_deficit:
  "row \<in> set (replay b evs) \<Longrightarrow> \<not> isIncome row \<Longrightarrow> deficit row = 0"
proof (induction evs arbitrary: b)
  case Nil
  then show ?case by simp
next
  case (Cons ev rest)
  show ?case
  proof (cases "isIncome ev")
    case True
    with Cons.prems have "row \<in> set (replay (b + amount ev) rest)"
      by (auto simp: replay_income)
    then show ?thesis using Cons.prems(2) by (rule Cons.IH)
  next
    case False
    with Cons.prems consider "deficit row = 0"
      | "row \<in> set (replay (if isNegative (b - amount ev) then 0 else b - amount ev) rest)"
      by (auto simp: replay_payment simp del: number_zero)
    then show ?thesis
    proof cases
      case 1
      then show ?thesis .
    next
      case 2
      then show ?thesis using Cons.prems(2) by (rule Cons.IH)
    qed
  qed
qed

text \<open>A balance that is not negative (a non-negative real, or \<open>NaN\<close>) stays so when the
  deposits are not negative, and every row then has deficit \<open>0\<close>.\<close>

lemma not_negative_plus: "\<not> isNegative b \<Longrightarrow> \<not> isNegative a \<Longrightarrow> \<not> isNegative (b + a)"
  by (cases b; cases a) simp_all

lemma replay_nonneg_deficit:
  "\<not> isNegative b \<Longrightarrow> (\<And>e. e \<in> set evs \<Longrightarrow> isIncome e \<Longrightarrow> \<not> isNegative (amount e))
    \<Longrightarrow> row \<in> set (replay b evs) \<Longrightarrow> deficit row = 0"
proof (induction evs arbitrary: b)
  case Nil
  then show ?case by simp
next
  case (Cons ev rest)
  have tl: "\<And>e. e \<in> set rest \<Longrightarrow> isIncome e \<Longrightarrow> \<not> isNegative (amount e)"
    using Cons.prems(2) by simp
  show ?case
  proof (cases "isIncome ev")
    case True
    then have "\<not> isNegative (amount ev)" using Cons.prems(2) by simp
    with Cons.prems(1) have b': "\<not> isNegative (b + amount ev)" by (rule not_negative_plus)
    then have d: "round2 (case b + amount ev of Num c \<Rightarrow> if c < 0 then \<bar>c\<bar> else 0 | NaN \<Rightarrow> 0) = 0"
      by (cases "b + amount ev") (simp_all add: round2_zero)
    from True Cons.prems(3) consider "deficit row = 0" | "row \<in> set (replay (b + amount ev) rest)"
      using d by (auto simp: replay_income)
    then show ?thesis
    proof cases
      case 1
      then show ?thesis .
    next
      case 2
      with b' tl show ?thesis by (rule Cons.IH)
    qed
  next
    case False
    have b': "\<not> isNegative (if isNegative (b - amount ev) then 0 else b - amount ev)" by simp
    from False Cons.prems(3) consider "deficit row = 0"
      | "row \<in> set (replay (if isNegative (b - amount ev) then 0 else b - amount ev) rest)"
      by (auto simp: replay_payment simp del: number_zero)
    then show ?thesis
    proof cases
      case 1
      then show ?thesis .
    next
      case 2
      with b' tl show ?thesis by (rule Cons.IH)
    qed
  qed
qed

lemma createPaymentSchedule_replay:
  "\<exists>evs. createPaymentSchedule today cal b acc fy = replay (Num b) evs \<and>
         (\<forall>e\<in>set evs. isIncome e \<longrightarrow> amount e = acc)"
  unfolding createPaymentSchedule_def Let_def
  by (rule exI, rule conjI, rule refl) auto

text \<open>The schedule returned by \<open>calculateSRLTaxes\<close> is a replay from the caller's
  balance, and the deposits it replays all carry the same set-aside, which is not
  negative.\<close>

lemma accrual_not_negative:
  "0 \<le> x \<Longrightarrow> 0 \<le> y \<Longrightarrow> 0 \<le> z \<Longrightarrow> 0 \<le> w \<Longrightarrow>
     \<not> isNegative ((Num x + Num y * irapRateOf r + Num z + Num w) / Num 12)"
proof -
  assume s: "0 \<le> x" "0 \<le> y" "0 \<le> z" "0 \<le> w"
  show ?thesis
  proof (cases "irapRateOf r")
    case NaN
    then show ?thesis by simp
  next
    case (Num v)
    then have "0 < v" using irapRateOf_cases [of r] by simp
    then have "0 \<le> y * v" using s(2) by simp
    then have "0 \<le> x + y * v + z + w" using s by simp
    then show ?thesis by (simp add: Num not_less)
  qed
qed

lemma paymentSchedule_calc:
  "\<exists>cal x y z w fy. paymentSchedule (calculateSRLTaxes g t i) =
       createPaymentSchedule t cal (currentBalance i)
         ((Num x + Num y * irapRateOf (region i) + Num z + Num w) / Num 12) fy \<and>
       0 \<le> x \<and> 0 \<le> y \<and> 0 \<le> z \<and> 0 \<le> w"
  apply (simp only: calculateSRLTaxes_def Let_def SRLTaxCalculationResult.select_convs)
  apply (intro exI conjI)
      apply (rule refl)
     apply (intro mult_nonneg_nonneg max.cobounded1 iresRate_cases)
    apply (rule max.cobounded1)
   apply (intro add_nonneg_nonneg inpsAdmin_raw_nonneg inpsEmployees_raw_nonneg)
  apply (rule vatAmount_raw_nonneg)
  done

lemma paymentSchedule_replay:
  "\<exists>evs. paymentSchedule (calculateSRLTaxes g t i) = replay (Num (currentBalance i)) evs \<and>
         (\<forall>e\<in>set evs. isIncome e \<longrightarrow> \<not> isNegative (amount e))"
proof -
  obtain cal x y z w fy where
    1: "paymentSchedule (calculateSRLTaxes g t i) =
          createPaymentSchedule t cal (currentBalance i)
            ((Num x + Num y * irapRateOf (region i) + Num z + Num w) / Num 12) fy"
    and 2: "0 \<le> x" "0 \<le> y" "0 \<le> z" "0 \<le> w"
    using paymentSchedule_calc by blast
  obtain evs where
    3: "createPaymentSchedule t cal (currentBalance i)
          ((Num x + Num y * irapRateOf (region i) + Num z + Num w) / Num 12) fy
        = replay (Num (currentBalance i)) evs"
    and 4: "\<forall>e\<in>set evs. isIncome e \<longrightarrow>
              amount e = (Num x + Num y * irapRateOf (region i) + Num z + Num w) / Num 12"
    using createPaymentSchedule_replay by blast
  have "\<forall>e\<in>set evs. isIncome e \<longrightarrow> \<not> isNegative (amount e)"
    using 4 accrual_not_negative [OF 2, of "region i"] by simp
  with 1 3 show ?thesis by (intro exI [of _ evs]) simp
qed

text \<open>
  Claim C3, as the code has it. The deficit of a row is taken from the running balance
  after the row. After an obligation the balance has been clamped, so every obligation
  row has deficit \<open>0\<close>; a deposit row adds the monthly set-aside to the balance without
  clamping, so every row has deficit \<open>0\<close> when the caller's balance is not negative.
\<close>

theorem schedule_deficit:
  "(\<forall>row \<in> set (paymentSchedule (calculateSRLTaxes g t i)). \<not> isIncome row \<longrightarrow> deficit row = 0) \<and>
   (0 \<le> currentBalance i \<longrightarrow>
      (\<forall>row \<in> set (paymentSchedule (calculateSRLTaxes g t i)). deficit row = 0))"
proof -
  obtain evs where
    1: "paymentSchedule (calculateSRLTaxes g t i) = replay (Num (currentBalance i)) evs"
    and 2: "\<forall>e\<in>set evs. isIncome e \<longrightarrow> \<not> isNegative (amount e)"
    using paymentSchedule_replay by blast
  have a: "\<forall>row \<in> set (replay (Num (currentBalance i)) evs). \<not> isIncome row \<longrightarrow> deficit row = 0"
    by (auto intro: replay_payment_deficit)
  have b: "\<forall>row \<in> set (replay (Num (currentBalance i)) evs). deficit row = 0"
    if "0 \<le> currentBalance i"
  proof
    fix row assume r: "row \<in> set (replay (Num (currentBalance i)) evs)"
    have "\<not> isNegative (Num (currentBalance i))" using that by simp
    then show "deficit row = 0"
      using replay_nonneg_deficit [of "Num (currentBalance i)" evs row] 2 r by blast
  qed
  from a b show ?thesis unfolding 1 by blast
qed

text \<open>The unrounded running balances behind the rows of a replay: the list \<open>bs\<close> starts
  with the opening balance, and each row records the cents of the balance before and
  after it.\<close>

lemma steps_Cons:
  assumes "S r b (bs ! 0)"
    and "\<forall>k < length rows. S (rows ! k) (bs ! k) (bs ! Suc k)"
  shows "\<forall>k < length (r # rows). S ((r # rows) ! k) ((b # bs) ! k) ((b # bs) ! Suc k)"
proof (intro allI impI)
  fix k assume "k < length (r # rows)"
  then show "S ((r # rows) ! k) ((b # bs) ! k) ((b # bs) ! Suc k)"
    using assms by (cases k) simp_all
qed

lemma replay_balances:
  "\<exists>bs. length bs = Suc (length (replay b evs)) \<and> bs ! 0 = b \<and>
     (\<forall>k < length (replay b evs).
        previousBalance (replay b evs ! k) = roundCents (bs ! k) \<and>
        newBalance (replay b evs ! k) = roundCents (bs ! Suc k) \<and>
        (isIncome (replay b evs ! k) \<longrightarrow>
           bs ! Suc k = bs ! k + amount (replay b evs ! k) \<and>
           requiredPayment (replay b evs ! k) = roundCents (amount (replay b evs ! k))) \<and>
        (\<not> isIncome (replay b evs ! k) \<longrightarrow>
           bs ! Suc k = (if isNegative (bs ! k - amount (replay b evs ! k)) then 0
                         else bs ! k - amount (replay b evs ! k)) \<and>
           requiredPayment (replay b evs ! k) =
             roundCents (if isNegative (bs ! k - amount (replay b evs ! k))
                         then Math_abs (bs ! k - amount (replay b evs ! k)) else 0)))"
proof (induction evs arbitrary: b)
  case Nil
  show ?case by (rule exI [of _ "[b]"]) simp
next
  case (Cons ev rest)
  let ?S = "\<lambda>row c c'.
        previousBalance row = roundCents c \<and>
        newBalance row = roundCents c' \<and>
        (isIncome row \<longrightarrow>
           c' = c + amount row \<and> requiredPayment row = roundCents (amount row)) \<and>
        (\<not> isIncome row \<longrightarrow>
           c' = (if isNegative (c - amount row) then 0 else c - amount row) \<and>
           requiredPayment row =
             roundCents (if isNegative (c - amount row) then Math_abs (c - amount row) else 0))"
  define b' where "b' = (if isIncome ev then b + amount ev
                         else if isNegative (b - amount ev) then 0 else b - amount ev)"
  obtain r where eq: "replay b (ev # rest) = r # replay b' rest" and r: "?S r b b'"
  proof (cases "isIncome ev")
    case True
    then have "b' = b + amount ev" by (simp add: b'_def)
    with replay_income [OF True, of b rest] have
      "replay b (ev # rest) =
         \<lparr>date = date ev, amount = amount ev, type = type ev, category = category ev,
          description = description ev, isIncome = True,
          previousBalance = roundCents b, newBalance = roundCents b',
          deficit = round2 (case b' of Num c \<Rightarrow> if c < 0 then \<bar>c\<bar> else 0 | NaN \<Rightarrow> 0),
          requiredPayment = roundCents (amount ev)\<rparr> # replay b' rest"
      by simp
    then show ?thesis
      by (rule that) (simp add: \<open>b' = b + amount ev\<close>)
  next
    case False
    then have b': "b' = (if isNegative (b - amount ev) then 0 else b - amount ev)"
      by (simp add: b'_def)
    with replay_payment [OF False, of b rest] have
      "replay b (ev # rest) =
         \<lparr>date = date ev, amount = amount ev, type = type ev, category = category ev,
          description = description ev, isIncome = False,
          previousBalance = roundCents b, newBalance = roundCents b',
          deficit = 0,
          requiredPayment =
            roundCents (if isNegative (b - amount ev) then Math_abs (b - amount ev) else 0)\<rparr>
         # replay b' rest"
      by (simp del: number_zero)
    then show ?thesis
      by (rule that) (simp add: b' del: number_zero)
  qed
  obtain bs where len: "length bs = Suc (length (replay b' rest))" and hd: "bs ! 0 = b'"
    and st: "\<forall>k < length (replay b' rest). ?S (replay b' rest ! k) (bs ! k) (bs ! Suc k)"
    using Cons.IH [of b'] by blast
  have "\<forall>k < length (r # replay b' rest).
          ?S ((r # replay b' rest) ! k) ((b # bs) ! k) ((b # bs) ! Suc k)"
    using r [folded hd] st by (rule steps_Cons [where S = ?S])
  then show ?case
    unfolding eq using len by (intro exI [of _ "b # bs"]) simp
qed

text \<open>
  Claim C4, as the code has it. The claim reads the balance equations over the rounded
  values recorded in a row. The code keeps an unrounded running balance, and a row
  records its cents before and after the event, each rounded on its own, next to the
  unrounded amount. So the equations hold between the unrounded balances \<open>bs\<close>: the first
  is the caller's balance; a deposit adds its amount and has the amount, rounded, as
  required payment; an obligation subtracts its amount, the balance becoming zero and the
  shortfall the required payment when the difference is negative, the required payment
  being zero otherwise; and \<open>previousBalance\<close> and \<open>newBalance\<close> of the row are the cents
  of the balance before and after it.
\<close>

theorem schedule_balance:
  "\<exists>bs. length bs = Suc (length (paymentSchedule (calculateSRLTaxes g t i))) \<and>
     bs ! 0 = Num (currentBalance i) \<and>
     (\<forall>k < length (paymentSchedule (calculateSRLTaxes g t i)).
        previousBalance (paymentSchedule (calculateSRLTaxes g t i) ! k) = roundCents (bs ! k) \<and>
        newBalance (paymentSchedule (calculateSRLTaxes g t i) ! k) = roundCents (bs ! Suc k) \<and>
        (isIncome (paymentSchedule (calculateSRLTaxes g t i) ! k) \<longrightarrow>
           bs ! Suc k = bs ! k + amount (paymentSchedule (calculateSRLTaxes g t i) ! k) \<and>
           requiredPayment (paymentSchedule (calculateSRLTaxes g t i) ! k) =
             roundCents (amount (paymentSchedule (calculateSRLTaxes g t i) ! k))) \<and>
        (\<not> isIncome (paymentSchedule (calculateSRLTaxes g t i) ! k) \<longrightarrow>
           bs ! Suc k =
             (if isNegative (bs ! k - amount (paymentSchedule (calculateSRLTaxes g t i) ! k))
              then 0 else bs ! k - amount (paymentSchedule (calculateSRLTaxes g t i) ! k)) \<and>
           requiredPayment (paymentSchedule (calculateSRLTaxes g t i) ! k) =
             roundCents
               (if isNegative (bs ! k - amount (paymentSchedule (calculateSRLTaxes g t i) ! k))
                then Math_abs (bs ! k - amount (paymentSchedule (calculateSRLTaxes g t i) ! k))
                else 0)))"
proof -
  obtain evs where
    1: "paymentSchedule (calculateSRLTaxes g t i) = replay (Num (currentBalance i)) evs"
    using paymentSchedule_replay by blast
  show ?thesis
    unfolding 1 by (rule replay_balances)
qed

text \<open>Evaluation of the schedule on the sample inputs.\<close>

lemmas resolver_defs = checkIresPremialeConditions_def calculateROLAndInterests_def
  calculateLossesUsage_def perditePrimi3Used_def perditeOrdinarieUsed_def
  calculateSuperDeduction_def calculateIrapDeductions_def calculateVATDeadlines_def
  resolveStartYear_def orElse_def orElseInt_def truthy_def IRAP_RATES_def VAT_REGIMES_def
  irapRateOf_def objectPrototypeMembers_def
  createFiscalCalendar2025_def createPaymentSchedule_def getTime_def midnight_def
  round2_def Math_round_def Math_ceil_def showInt_def showNat.simps digitChar_def getMonthName_def
  replay.simps(2) upt_rec rejectAll_def

lemma schedule_negativeBalance:
  "paymentSchedule (calculateSRLTaxes rejectAll dec1 negativeBalanceInput) =
    [\<lparr>date = Date 1 12 2025, amount = Num (136424 / 15), type = ''Versamento Mensile 12'',
      category = ACCUMULO, description = ''Accantonamento mensile consigliato'',
      isIncome = True, previousBalance = Num (- 20000), newBalance = Num (- (1090507 / 100)),
      deficit = 1090507 / 100, requiredPayment = Num (909493 / 100)\<rparr>,
     \<lparr>date = Date 16 1 2026, amount = Num 11000, type = ''IVA Q4 2025'',
      category = IVA, description = ''IVA Q4 2025'', isIncome = False,
      previousBalance = Num (- (1090507 / 100)), newBalance = Num 0, deficit = 0,
      requiredPayment = Num (2190507 / 100)\<rparr>,
     \<lparr>date = Date 16 2 2026, amount = Num 8400, type = ''INPS IV Trim 2025'',
      category = INPS, description = ''Contributi INPS anno 2025 - IV trimestre'',
      isIncome = False, previousBalance = Num 0, newBalance = Num 0, deficit = 0,
      requiredPayment = Num 8400\<rparr>]"
  apply (simp only: calculateSRLTaxes_def Let_def SRLTaxCalculationResult.select_convs)
  apply (simp add: negativeBalanceInput_def scenario_def zeroInput_def dec1_def resolver_defs
           Let_def)
  done

lemma schedule_scenario_dec1:
  "paymentSchedule (calculateSRLTaxes rejectAll dec1 scenario) =
    [\<lparr>date = Date 1 12 2025, amount = Num (136424 / 15), type = ''Versamento Mensile 12'',
      category = ACCUMULO, description = ''Accantonamento mensile consigliato'',
      isIncome = True, previousBalance = Num 0, newBalance = Num (909493 / 100), deficit = 0,
      requiredPayment = Num (909493 / 100)\<rparr>,
     \<lparr>date = Date 16 1 2026, amount = Num 11000, type = ''IVA Q4 2025'',
      category = IVA, description = ''IVA Q4 2025'', isIncome = False,
      previousBalance = Num (909493 / 100), newBalance = Num 0, deficit = 0,
      requiredPayment = Num (190507 / 100)\<rparr>,
     \<lparr>date = Date 16 2 2026, amount = Num 8400, type = ''INPS IV Trim 2025'',
      category = INPS, description = ''Contributi INPS anno 2025 - IV trimestre'',
      isIncome = False, previousBalance = Num 0, newBalance = Num 0, deficit = 0,
      requiredPayment = Num 8400\<rparr>]"
  apply (simp only: calculateSRLTaxes_def Let_def SRLTaxCalculationResult.select_convs)
  apply (simp add: scenario_def zeroInput_def dec1_def resolver_defs Let_def)
  done

lemma schedule_scenario_feb1:
  "paymentSchedule (calculateSRLTaxes rejectAll feb1 scenario) =
    [\<lparr>date = Date 16 2 2026, amount = Num 8400, type = ''INPS IV Trim 2025'',
      category = INPS, description = ''Contributi INPS anno 2025 - IV trimestre'',
      isIncome = False, previousBalance = Num 0, newBalance = Num 0, deficit = 0,
      requiredPayment = Num 8400\<rparr>]"
  apply (simp only: calculateSRLTaxes_def Let_def SRLTaxCalculationResult.select_convs)
  apply (simp add: scenario_def zeroInput_def feb1_def resolver_defs Let_def)
  done

theorem schedule_balance_witness:
  "0 < length (paymentSchedule (calculateSRLTaxes rejectAll dec1 scenario)) \<and>
   isIncome (paymentSchedule (calculateSRLTaxes rejectAll dec1 scenario) ! 0) \<and>
   newBalance (paymentSchedule (calculateSRLTaxes rejectAll dec1 scenario) ! 0) =
     roundCents (Num (currentBalance scenario)
                 + amount (paymentSchedule (calculateSRLTaxes rejectAll dec1 scenario) ! 0)) \<and>
   1 < length (paymentSchedule (calculateSRLTaxes rejectAll dec1 scenario)) \<and>
   \<not> isIncome (paymentSchedule (calculateSRLTaxes rejectAll dec1 scenario) ! 1) \<and>
   previousBalance (paymentSchedule (calculateSRLTaxes rejectAll dec1 scenario) ! 1) =
     roundCents (Num (currentBalance scenario)
                 + amount (paymentSchedule (calculateSRLTaxes rejectAll dec1 scenario) ! 0)) \<and>
   requiredPayment (paymentSchedule (calculateSRLTaxes rejectAll dec1 scenario) ! 1) =
     roundCents
       (if isNegative (Num (currentBalance scenario)
                       + amount (paymentSchedule (calculateSRLTaxes rejectAll dec1 scenario) ! 0)
                       - amount (paymentSchedule (calculateSRLTaxes rejectAll dec1 scenario) ! 1))
        then Math_abs (Num (currentBalance scenario)
                       + amount (paymentSchedule (calculateSRLTaxes rejectAll dec1 scenario) ! 0)
                       - amount (paymentSchedule (calculateSRLTaxes rejectAll dec1 scenario) ! 1))
        else 0)"
proof -
  let ?S = "paymentSchedule (calculateSRLTaxes rejectAll dec1 scenario)"
  have len: "0 < length ?S" "1 < length ?S"
    by (simp_all add: schedule_scenario_dec1)
  have inc: "isIncome (?S ! 0)" "\<not> isIncome (?S ! 1)"
    by (simp_all add: schedule_scenario_dec1)
  obtain bs where b0: "bs ! 0 = Num (currentBalance scenario)"
    and st: "\<forall>k < length ?S.
        previousBalance (?S ! k) = roundCents (bs ! k) \<and>
        newBalance (?S ! k) = roundCents (bs ! Suc k) \<and>
        (isIncome (?S ! k) \<longrightarrow>
           bs ! Suc k = bs ! k + amount (?S ! k) \<and>
           requiredPayment (?S ! k) = roundCents (amount (?S ! k))) \<and>
        (\<not> isIncome (?S ! k) \<longrightarrow>
           bs ! Suc k = (if isNegative (bs ! k - amount (?S ! k)) then 0
                         else bs ! k - amount (?S ! k)) \<and>
           requiredPayment (?S ! k) =
             roundCents (if isNegative (bs ! k - amount (?S ! k))
                         then Math_abs (bs ! k - amount (?S ! k)) else 0))"
    using schedule_balance [of rejectAll dec1 scenario] by blast
  note s0 = st [rule_format, OF len(1)]
  note s1 = st [rule_format, OF len(2)]
  have b1: "bs ! Suc 0 = Num (currentBalance scenario) + amount (?S ! 0)"
    using s0 inc(1) b0 by simp
  have n0: "newBalance (?S ! 0) = roundCents (Num (currentBalance scenario) + amount (?S ! 0))"
    using s0 b1 by simp
  have p1: "previousBalance (?S ! 1) = roundCents (Num (currentBalance scenario) + amount (?S ! 0))"
    using s1 b1 by simp
  have r1: "requiredPayment (?S ! 1) =
     roundCents
       (if isNegative (Num (currentBalance scenario) + amount (?S ! 0) - amount (?S ! 1))
        then Math_abs (Num (currentBalance scenario) + amount (?S ! 0) - amount (?S ! 1))
        else 0)"
    using s1 inc(2) b1 by (simp del: number_zero)
  from len inc n0 p1 r1 show ?thesis by (intro conjI)
qed

text \<open>
  Claim C4 as stated fails: in the scenario of the specification the first row, the
  deposit of December, has \<open>previousBalance = 0\<close>, \<open>amount = 136424/15\<close> (9094.933...)
  and \<open>newBalance = 9094.93\<close>.
\<close>

theorem schedule_balance_counterexample:
  "isIncome (paymentSchedule (calculateSRLTaxes rejectAll dec1 scenario) ! 0) \<and>
   newBalance (paymentSchedule (calculateSRLTaxes rejectAll dec1 scenario) ! 0) \<noteq>
     previousBalance (paymentSchedule (calculateSRLTaxes rejectAll dec1 scenario) ! 0)
     + amount (paymentSchedule (calculateSRLTaxes rejectAll dec1 scenario) ! 0)"
  by (simp add: schedule_scenario_dec1)

theorem schedule_deficit_witness:
  "0 \<le> currentBalance scenario \<and>
   length (paymentSchedule (calculateSRLTaxes rejectAll dec1 scenario)) = 3 \<and>
   deficit (paymentSchedule (calculateSRLTaxes rejectAll dec1 scenario) ! 0) = 0 \<and>
   \<not> isIncome (paymentSchedule (calculateSRLTaxes rejectAll dec1 scenario) ! 1) \<and>
   deficit (paymentSchedule (calculateSRLTaxes rejectAll dec1 scenario) ! 1) = 0"
proof -
  have len: "length (paymentSchedule (calculateSRLTaxes rejectAll dec1 scenario)) = 3"
    by (simp add: schedule_scenario_dec1)
  have inc: "\<not> isIncome (paymentSchedule (calculateSRLTaxes rejectAll dec1 scenario) ! 1)"
    by (simp add: schedule_scenario_dec1)
  have bal: "0 \<le> currentBalance scenario"
    by (simp add: scenario_def zeroInput_def)
  have mem: "paymentSchedule (calculateSRLTaxes rejectAll dec1 scenario) ! 0
               \<in> set (paymentSchedule (calculateSRLTaxes rejectAll dec1 scenario))"
    "paymentSchedule (calculateSRLTaxes rejectAll dec1 scenario) ! 1
               \<in> set (paymentSchedule (calculateSRLTaxes rejectAll dec1 scenario))"
    by (simp_all add: len)
  show ?thesis
    using schedule_deficit [of rejectAll dec1 scenario] len inc bal mem by blast
qed

text \<open>
  Claim C3 as stated fails: in the scenario of the specification with a balance of
  \<open>-20000\<close>, the deposit row of December records a deficit of \<open>10905.07\<close>.
\<close>

theorem schedule_deficit_counterexample:
  "map deficit (paymentSchedule (calculateSRLTaxes rejectAll dec1 negativeBalanceInput))
     = [10905.07, 0, 0]"
  by (simp add: schedule_negativeBalance)

subsection \<open>The clock and the date parser\<close>

lemma same_start_year:
  "resolveStartYear g1 i = resolveStartYear g2 i \<Longrightarrow>
     calculateSRLTaxes g1 t i = calculateSRLTaxes g2 t i"
  by (simp only: calculateSRLTaxes_def)

lemma same_but_schedule:
  "(calculateSRLTaxes g t1 i)\<lparr>paymentSchedule := []\<rparr> =
   (calculateSRLTaxes g t2 i)\<lparr>paymentSchedule := []\<rparr>"
  by (simp only: calculateSRLTaxes_def Let_def SRLTaxCalculationResult.update_convs)

text \<open>
  Claim C1, as the code has it. The result is not a function of the input record alone:
  the code reads the clock (\<open>new Date()\<close> in \<open>createPaymentSchedule\<close>, to drop the events
  that are past) and the host's date parser (\<open>new Date(startDate).getFullYear()\<close>, a year
  in local time). The parser acts through the resolved start year only. For the same
  resolved start year, two calls at the same instant return equal records, and two calls
  at any two instants return records that are equal in every field other than
  \<open>paymentSchedule\<close>, \<open>calendar2025\<close> included.
\<close>

theorem host_readings:
  "resolveStartYear g1 i = resolveStartYear g2 i \<longrightarrow>
     calculateSRLTaxes g1 t i = calculateSRLTaxes g2 t i \<and>
     (calculateSRLTaxes g1 t1 i)\<lparr>paymentSchedule := []\<rparr> =
     (calculateSRLTaxes g2 t2 i)\<lparr>paymentSchedule := []\<rparr>"
proof
  assume y: "resolveStartYear g1 i = resolveStartYear g2 i"
  have "(calculateSRLTaxes g1 t1 i)\<lparr>paymentSchedule := []\<rparr> =
        (calculateSRLTaxes g1 t2 i)\<lparr>paymentSchedule := []\<rparr>"
    by (rule same_but_schedule)
  also have "calculateSRLTaxes g1 t2 i = calculateSRLTaxes g2 t2 i"
    using y by (rule same_start_year)
  finally show "calculateSRLTaxes g1 t i = calculateSRLTaxes g2 t i \<and>
     (calculateSRLTaxes g1 t1 i)\<lparr>paymentSchedule := []\<rparr> =
     (calculateSRLTaxes g2 t2 i)\<lparr>paymentSchedule := []\<rparr>"
    using same_start_year [OF y, of t] by simp
qed

theorem host_readings_witness:
  "resolveStartYear rejectAll scenario = resolveStartYear readsYear2024 scenario \<and>
   calculateSRLTaxes rejectAll dec1 scenario = calculateSRLTaxes readsYear2024 dec1 scenario \<and>
   (calculateSRLTaxes rejectAll dec1 scenario)\<lparr>paymentSchedule := []\<rparr> =
   (calculateSRLTaxes readsYear2024 feb1 scenario)\<lparr>paymentSchedule := []\<rparr>"
proof -
  have y: "resolveStartYear rejectAll scenario = resolveStartYear readsYear2024 scenario"
    by (simp add: resolveStartYear_def scenario_def zeroInput_def)
  show ?thesis
    using host_readings [of rejectAll scenario readsYear2024 dec1 dec1 feb1] y by blast
qed

text \<open>The parser: the same input at the same instant, read on two hosts.\<close>

lemma acconto_newYear:
  "iresFirstAcconto (calculateSRLTaxes readsYear2025 dec1 newYearInput) = 0"
  "iresFirstAcconto (calculateSRLTaxes readsYear2024 dec1 newYearInput) = 6144"
  apply (simp_all only: calculateSRLTaxes_def Let_def SRLTaxCalculationResult.select_convs)
  apply (simp_all add: newYearInput_def scenario_def zeroInput_def resolver_defs Let_def
           readsYear2025_def readsYear2024_def)
  done

text \<open>
  Claim C1 as stated fails. The clock: the same input gives a schedule of three rows on
  the first of December 2025 and of one row on the first of February 2026. The parser:
  for the start date \<open>2025-01-01\<close>, at one instant, the first IRES installment is \<open>0\<close>
  where the host reads the year 2025 and \<open>6144\<close> where it reads 2024.
\<close>

theorem host_dependence_counterexample:
  "calculateSRLTaxes rejectAll dec1 scenario \<noteq> calculateSRLTaxes rejectAll feb1 scenario \<and>
   calculateSRLTaxes readsYear2025 dec1 newYearInput
     \<noteq> calculateSRLTaxes readsYear2024 dec1 newYearInput"
proof
  show "calculateSRLTaxes rejectAll dec1 scenario \<noteq> calculateSRLTaxes rejectAll feb1 scenario"
  proof
    assume "calculateSRLTaxes rejectAll dec1 scenario = calculateSRLTaxes rejectAll feb1 scenario"
    then have "length (paymentSchedule (calculateSRLTaxes rejectAll dec1 scenario)) =
               length (paymentSchedule (calculateSRLTaxes rejectAll feb1 scenario))"
      by simp
    then show False
      by (simp add: schedule_scenario_dec1 schedule_scenario_feb1)
  qed
  show "calculateSRLTaxes readsYear2025 dec1 newYearInput
     \<noteq> calculateSRLTaxes readsYear2024 dec1 newYearInput"
  proof
    assume "calculateSRLTaxes readsYear2025 dec1 newYearInput
     = calculateSRLTaxes readsYear2024 dec1 newYearInput"
    then have "iresFirstAcconto (calculateSRLTaxes readsYear2025 dec1 newYearInput)
     = iresFirstAcconto (calculateSRLTaxes readsYear2024 dec1 newYearInput)"
      by simp
    then show False by (simp add: acconto_newYear)
  qed
qed

subsection \<open>VAT deadlines\<close>

lemma vat_fields:
  "\<exists>V. vatAmount (calculateSRLTaxes g t i) = round2 V \<and>
       vatQuarterly (calculateSRLTaxes g t i) =
         round2 (V / (orElse (map_option frequency (map_of VAT_REGIMES (vatRegime i))) 4 / 4)) \<and>
       vatDeadlines (calculateSRLTaxes g t i) =
         map (\<lambda>deadline. deadline\<lparr>amount := round2 (amount deadline)\<rparr>)
           (calculateVATDeadlines (vatRegime i) V
              (orElse (map_option frequency (map_of VAT_REGIMES (vatRegime i))) 4)
              (orElseInt (fiscalYear i) 2025))"
  apply (simp only: calculateSRLTaxes_def Let_def SRLTaxCalculationResult.select_convs)
  apply (intro exI conjI)
    apply (rule refl)+
  done

lemma quarterly_sum_err: "\<bar>4 * round2 (V / 4) - round2 V\<bar> \<le> 1 / 40"
  using round2_err [of "V / 4"] round2_err [of V] by linarith

lemma monthly_sum_err: "\<bar>12 * round2 (V / 12) - round2 V\<bar> \<le> 13 / 200"
  using round2_err [of "V / 12"] round2_err [of V] by linarith

text \<open>
  Claim C8. Under the regime \<open>TRIMESTRALE\<close> the returned \<open>vatDeadlines\<close> are four entries
  of one amount, and their sum is the returned \<open>vatAmount\<close> up to the rounding of the
  five figures to cents (at most 2.5 cents); under \<open>MENSILE\<close> they are twelve entries of
  one amount, summing to \<open>vatAmount\<close> up to the rounding of thirteen figures (at most
  6.5 cents); under any other regime code there are no deadlines, and the
  quarterly-equivalent amount is computed with the default cadence \<open>4\<close>, which makes it
  the VAT amount itself.
\<close>

theorem vat_deadlines:
  "(vatRegime i = ''TRIMESTRALE'' \<longrightarrow>
      (\<exists>a. map amount (vatDeadlines (calculateSRLTaxes g t i)) = replicate 4 a) \<and>
      \<bar>sum_list (map amount (vatDeadlines (calculateSRLTaxes g t i)))
         - vatAmount (calculateSRLTaxes g t i)\<bar> \<le> 1 / 40) \<and>
   (vatRegime i = ''MENSILE'' \<longrightarrow>
      (\<exists>a. map amount (vatDeadlines (calculateSRLTaxes g t i)) = replicate 12 a) \<and>
      \<bar>sum_list (map amount (vatDeadlines (calculateSRLTaxes g t i)))
         - vatAmount (calculateSRLTaxes g t i)\<bar> \<le> 13 / 200) \<and>
   (vatRegime i \<noteq> ''TRIMESTRALE'' \<and> vatRegime i \<noteq> ''MENSILE'' \<longrightarrow>
      vatDeadlines (calculateSRLTaxes g t i) = [] \<and>
      vatQuarterly (calculateSRLTaxes g t i) = vatAmount (calculateSRLTaxes g t i))"
proof -
  obtain V where
    va: "vatAmount (calculateSRLTaxes g t i) = round2 V" and
    vq: "vatQuarterly (calculateSRLTaxes g t i) =
         round2 (V / (orElse (map_option frequency (map_of VAT_REGIMES (vatRegime i))) 4 / 4))" and
    vd: "vatDeadlines (calculateSRLTaxes g t i) =
         map (\<lambda>deadline. deadline\<lparr>amount := round2 (amount deadline)\<rparr>)
           (calculateVATDeadlines (vatRegime i) V
              (orElse (map_option frequency (map_of VAT_REGIMES (vatRegime i))) 4)
              (orElseInt (fiscalYear i) 2025))"
    using vat_fields by blast
  have q: "map amount (vatDeadlines (calculateSRLTaxes g t i)) = replicate 4 (round2 (V / 4))"
    if "vatRegime i = ''TRIMESTRALE''"
    using that by (simp add: vd calculateVATDeadlines_def Let_def numeral_eq_Suc)
  have m: "map amount (vatDeadlines (calculateSRLTaxes g t i)) = replicate 12 (round2 (V / 12))"
    if "vatRegime i = ''MENSILE''"
    using that by (simp add: vd calculateVATDeadlines_def Let_def o_def map_replicate_const)
  have u: "vatDeadlines (calculateSRLTaxes g t i) = []"
      "vatQuarterly (calculateSRLTaxes g t i) = vatAmount (calculateSRLTaxes g t i)"
    if "vatRegime i \<noteq> ''TRIMESTRALE''" "vatRegime i \<noteq> ''MENSILE''"
    using that by (simp_all add: vd vq va calculateVATDeadlines_def VAT_REGIMES_def orElse_def)
  show ?thesis
  proof (intro conjI impI)
    assume r: "vatRegime i = ''TRIMESTRALE''"
    show "\<exists>a. map amount (vatDeadlines (calculateSRLTaxes g t i)) = replicate 4 a"
      using q [OF r] by blast
    show "\<bar>sum_list (map amount (vatDeadlines (calculateSRLTaxes g t i)))
         - vatAmount (calculateSRLTaxes g t i)\<bar> \<le> 1 / 40"
      using quarterly_sum_err [of V] by (simp add: q [OF r] va sum_list_replicate)
  next
    assume r: "vatRegime i = ''MENSILE''"
    show "\<exists>a. map amount (vatDeadlines (calculateSRLTaxes g t i)) = replicate 12 a"
      using m [OF r] by blast
    show "\<bar>sum_list (map amount (vatDeadlines (calculateSRLTaxes g t i)))
         - vatAmount (calculateSRLTaxes g t i)\<bar> \<le> 13 / 200"
      using monthly_sum_err [of V] by (simp add: m [OF r] va sum_list_replicate)
  next
    assume r: "vatRegime i \<noteq> ''TRIMESTRALE'' \<and> vatRegime i \<noteq> ''MENSILE''"
    then show "vatDeadlines (calculateSRLTaxes g t i) = []"
      and "vatQuarterly (calculateSRLTaxes g t i) = vatAmount (calculateSRLTaxes g t i)"
      using u by blast+
  qed
qed

theorem vat_deadlines_witness:
  "vatRegime scenario = ''TRIMESTRALE'' \<and>
   \<bar>sum_list (map amount (vatDeadlines (calculateSRLTaxes rejectAll dec1 scenario)))
      - vatAmount (calculateSRLTaxes rejectAll dec1 scenario)\<bar> \<le> 1 / 40 \<and>
   vatRegime monthlyInput = ''MENSILE'' \<and>
   \<bar>sum_list (map amount (vatDeadlines (calculateSRLTaxes rejectAll dec1 monthlyInput)))
      - vatAmount (calculateSRLTaxes rejectAll dec1 monthlyInput)\<bar> \<le> 13 / 200 \<and>
   vatRegime unknownRegimeInput \<noteq> ''TRIMESTRALE'' \<and>
   vatRegime unknownRegimeInput \<noteq> ''MENSILE'' \<and>
   vatDeadlines (calculateSRLTaxes rejectAll dec1 unknownRegimeInput) = [] \<and>
   vatQuarterly (calculateSRLTaxes rejectAll dec1 unknownRegimeInput)
     = vatAmount (calculateSRLTaxes rejectAll dec1 unknownRegimeInput)"
proof -
  have r: "vatRegime scenario = ''TRIMESTRALE''" "vatRegime monthlyInput = ''MENSILE''"
    "vatRegime unknownRegimeInput \<noteq> ''TRIMESTRALE''" "vatRegime unknownRegimeInput \<noteq> ''MENSILE''"
    by (simp_all add: scenario_def monthlyInput_def unknownRegimeInput_def zeroInput_def)
  show ?thesis
    using vat_deadlines [of scenario rejectAll dec1] vat_deadlines [of monthlyInput rejectAll dec1]
      vat_deadlines [of unknownRegimeInput rejectAll dec1] r
    by blast
qed

subsection \<open>The preferential rate\<close>

lemma iresRate_calc:
  "iresRate (calculateSRLTaxes g t i) =
    (if isApplicable (checkIresPremialeConditions i) \<and> orElseInt (fiscalYear i) 2025 = 2025
     then 0.20 else 0.24)"
  by (simp only: calculateSRLTaxes_def Let_def SRLTaxCalculationResult.select_convs)

lemma fiscalYearR_calc: "fiscalYearR (calculateSRLTaxes g t i) = orElseInt (fiscalYear i) 2025"
  by (simp only: calculateSRLTaxes_def Let_def SRLTaxCalculationResult.select_convs)

lemma isApplicable_iff:
  "isApplicable (checkIresPremialeConditions i) \<longleftrightarrow>
     fiscalYear i = Some 2025 \<and>
     0 < orElse (utile2024 i) 0 \<and>
     max (max (orElse (utile2024 i) 0 * 0.8 * 0.3) (orElse (utile2023 i) 0 * 0.24)) 20000
       \<le> orElse (investimentiPrevisti i) 0 \<and>
     (0 < orElse (mediaULA2022_2024 i) 0 \<and>
      orElse (mediaULA2022_2024 i) 0 \<le> orElse (dipendentiTempo2024 i) 0) \<and>
     max 1 (Math_ceil (orElse (dipendentiTempo2024 i) 0 * 0.01)) \<le> orElse (nuoveAssunzioni2025 i) 0 \<and>
     hasUsedCIG i \<noteq> Some True"
  by (auto simp: checkIresPremialeConditions_def Let_def)

text \<open>With the fiscal year given explicitly the preferential rate applies exactly when the
  year is 2025 and the five conditions hold.\<close>

lemma iresRate_explicit_year:
  "iresRate (calculateSRLTaxes g t i) =
    (if fiscalYear i = Some 2025 \<and>
        0 < orElse (utile2024 i) 0 \<and>
        max (max (orElse (utile2024 i) 0 * 0.8 * 0.3) (orElse (utile2023 i) 0 * 0.24)) 20000
          \<le> orElse (investimentiPrevisti i) 0 \<and>
        (0 < orElse (mediaULA2022_2024 i) 0 \<and>
         orElse (mediaULA2022_2024 i) 0 \<le> orElse (dipendentiTempo2024 i) 0) \<and>
        max 1 (Math_ceil (orElse (dipendentiTempo2024 i) 0 * 0.01)) \<le> orElse (nuoveAssunzioni2025 i) 0 \<and>
        hasUsedCIG i \<noteq> Some True
     then 0.20 else 0.24)"
proof (cases "isApplicable (checkIresPremialeConditions i)")
  case True
  then have "fiscalYear i = Some 2025" by (simp add: isApplicable_iff)
  then have "orElseInt (fiscalYear i) 2025 = 2025" by (simp add: orElseInt_def)
  with True show ?thesis
    unfolding iresRate_calc using True [unfolded isApplicable_iff] by simp
next
  case False
  then show ?thesis
    unfolding iresRate_calc using False [unfolded isApplicable_iff] by auto
qed

text \<open>
  Claim C7, at the input where the code departs from it. The claim reads: the rate is
  \<open>0.20\<close> exactly when the fiscal year is 2025 and the five conditions hold. When the
  input leaves \<open>fiscalYear\<close> out, \<open>calculateSRLTaxes\<close> resolves the year to 2025 and
  returns it, while \<open>checkIresPremialeConditions\<close> compares the raw field with 2025
  and answers that the rate does not apply: with all five conditions satisfied the rate
  is \<open>0.24\<close>, and \<open>0.20\<close> once the same input names the year 2025.
\<close>

theorem premiale_omitted_year:
  "fiscalYear premialeInput = None \<and>
   fiscalYearR (calculateSRLTaxes rejectAll dec1 premialeInput) = 2025 \<and>
   iresRate (calculateSRLTaxes rejectAll dec1 premialeInput) = 0.24 \<and>
   iresRate (calculateSRLTaxes rejectAll dec1 (premialeInput\<lparr>fiscalYear := Some 2025\<rparr>)) = 0.20"
  by (simp add: iresRate_explicit_year fiscalYearR_calc premialeInput_def zeroInput_def
        orElse_def orElseInt_def Math_ceil_def)

subsection \<open>Installments and the start year\<close>

lemma acconti_fields:
  "\<exists>a b. iresFirstAcconto (calculateSRLTaxes g t i) =
           round2 (if \<not> (case resolveStartYear g i of None \<Rightarrow> False | Some y \<Rightarrow> 2025 \<le> y) \<and>
                      (case resolveStartYear g i of None \<Rightarrow> False | Some y \<Rightarrow> y \<le> 2024)
                   then a * 0.40 else 0) \<and>
         iresSecondAcconto (calculateSRLTaxes g t i) =
           round2 (if \<not> (case resolveStartYear g i of None \<Rightarrow> False | Some y \<Rightarrow> 2025 \<le> y) \<and>
                      (case resolveStartYear g i of None \<Rightarrow> False | Some y \<Rightarrow> y \<le> 2024)
                   then a * 0.60 else 0) \<and>
         irapFirstAcconto (calculateSRLTaxes g t i) =
           roundCents (if \<not> (case resolveStartYear g i of None \<Rightarrow> False | Some y \<Rightarrow> 2025 \<le> y) \<and>
                      (case resolveStartYear g i of None \<Rightarrow> False | Some y \<Rightarrow> y \<le> 2024)
                   then b * Num 0.40 else 0) \<and>
         irapSecondAcconto (calculateSRLTaxes g t i) =
           roundCents (if \<not> (case resolveStartYear g i of None \<Rightarrow> False | Some y \<Rightarrow> 2025 \<le> y) \<and>
                      (case resolveStartYear g i of None \<Rightarrow> False | Some y \<Rightarrow> y \<le> 2024)
                   then b * Num 0.60 else 0)"
  apply (simp only: calculateSRLTaxes_def Let_def SRLTaxCalculationResult.select_convs)
  apply (intro exI conjI)
     apply (rule refl)+
  done

lemma isNewBusiness_calc:
  "isNewBusiness (accontiDetailsR (calculateSRLTaxes g t i)) =
     (case resolveStartYear g i of None \<Rightarrow> False | Some y \<Rightarrow> 2025 \<le> y)"
  by (simp only: calculateSRLTaxes_def Let_def SRLTaxCalculationResult.select_convs
        accontiDetails.select_convs)

lemma calendar2025_calc:
  "\<exists>a b c d vd inps fy. calendar2025 (calculateSRLTaxes g t i) =
     createFiscalCalendar2025 a b c d vd inps fy
       (case resolveStartYear g i of None \<Rightarrow> False | Some y \<Rightarrow> 2025 \<le> y)"
  apply (simp only: calculateSRLTaxes_def Let_def SRLTaxCalculationResult.select_convs)
  apply (intro exI)
  apply (rule refl)
  done

lemma calendar_new_business:
  "e \<in> set (createFiscalCalendar2025 a b c d vd inps fy True) \<Longrightarrow>
     category e = IVA \<or> category e = INPS"
  by (auto simp: createFiscalCalendar2025_def Let_def split: if_splits)

text \<open>
  Claim C5, as the code has it. The claim reads: no installments when the start year
  equals the fiscal year. The code tests the start year against the constant 2025, not
  against the fiscal year: for every input whose resolved start year is 2025 or later the
  four installments are \<open>0\<close>, \<open>isNewBusiness\<close> is true and the calendar has no IRES and
  no IRAP event.
\<close>

theorem new_business_no_acconti:
  assumes "resolveStartYear g i = Some y" and "2025 \<le> y"
  shows "iresFirstAcconto (calculateSRLTaxes g t i) = 0 \<and>
         iresSecondAcconto (calculateSRLTaxes g t i) = 0 \<and>
         irapFirstAcconto (calculateSRLTaxes g t i) = 0 \<and>
         irapSecondAcconto (calculateSRLTaxes g t i) = 0 \<and>
         isNewBusiness (accontiDetailsR (calculateSRLTaxes g t i)) \<and>
         (\<forall>e \<in> set (calendar2025 (calculateSRLTaxes g t i)).
            category e \<noteq> IRES \<and> category e \<noteq> IRAP)"
proof -
  have new: "(case resolveStartYear g i of None \<Rightarrow> False | Some y \<Rightarrow> 2025 \<le> y) = True"
    using assms by simp
  obtain a b where
    "iresFirstAcconto (calculateSRLTaxes g t i) = round2 (if \<not> True \<and>
        (case resolveStartYear g i of None \<Rightarrow> False | Some y \<Rightarrow> y \<le> 2024) then a * 0.40 else 0)"
    "iresSecondAcconto (calculateSRLTaxes g t i) = round2 (if \<not> True \<and>
        (case resolveStartYear g i of None \<Rightarrow> False | Some y \<Rightarrow> y \<le> 2024) then a * 0.60 else 0)"
    "irapFirstAcconto (calculateSRLTaxes g t i) = roundCents (if \<not> True \<and>
        (case resolveStartYear g i of None \<Rightarrow> False | Some y \<Rightarrow> y \<le> 2024)
          then b * Num 0.40 else 0)"
    "irapSecondAcconto (calculateSRLTaxes g t i) = roundCents (if \<not> True \<and>
        (case resolveStartYear g i of None \<Rightarrow> False | Some y \<Rightarrow> y \<le> 2024)
          then b * Num 0.60 else 0)"
    using acconti_fields [of g t i] unfolding new by blast
  then have acc: "iresFirstAcconto (calculateSRLTaxes g t i) = 0"
    "iresSecondAcconto (calculateSRLTaxes g t i) = 0"
    "irapFirstAcconto (calculateSRLTaxes g t i) = 0"
    "irapSecondAcconto (calculateSRLTaxes g t i) = 0"
    by (simp_all add: round2_zero)
  have nb: "isNewBusiness (accontiDetailsR (calculateSRLTaxes g t i))"
    by (simp add: isNewBusiness_calc new)
  obtain a b c d vd inps fy where
    "calendar2025 (calculateSRLTaxes g t i) = createFiscalCalendar2025 a b c d vd inps fy True"
    using calendar2025_calc [of g t i] unfolding new by blast
  then have cal: "\<forall>e \<in> set (calendar2025 (calculateSRLTaxes g t i)).
            category e \<noteq> IRES \<and> category e \<noteq> IRAP"
    using calendar_new_business by fastforce
  from acc nb cal show ?thesis by simp
qed

lemma calendar_scenario_new:
  "map category (calendar2025 (calculateSRLTaxes rejectAll dec1 newIn2025Input)) =
     [IVA, INPS, IVA, INPS, IVA, INPS, IVA, INPS]"
  apply (simp only: calculateSRLTaxes_def Let_def SRLTaxCalculationResult.select_convs)
  apply (simp add: newIn2025Input_def scenario_def zeroInput_def resolver_defs Let_def)
  done

theorem new_business_no_acconti_witness:
  "resolveStartYear rejectAll newIn2025Input = Some 2025 \<and>
   iresFirstAcconto (calculateSRLTaxes rejectAll dec1 newIn2025Input) = 0 \<and>
   iresSecondAcconto (calculateSRLTaxes rejectAll dec1 newIn2025Input) = 0 \<and>
   irapFirstAcconto (calculateSRLTaxes rejectAll dec1 newIn2025Input) = 0 \<and>
   irapSecondAcconto (calculateSRLTaxes rejectAll dec1 newIn2025Input) = 0 \<and>
   isNewBusiness (accontiDetailsR (calculateSRLTaxes rejectAll dec1 newIn2025Input)) \<and>
   length (calendar2025 (calculateSRLTaxes rejectAll dec1 newIn2025Input)) = 8 \<and>
   category (calendar2025 (calculateSRLTaxes rejectAll dec1 newIn2025Input) ! 0) \<noteq> IRES \<and>
   category (calendar2025 (calculateSRLTaxes rejectAll dec1 newIn2025Input) ! 0) \<noteq> IRAP"
proof -
  have y: "resolveStartYear rejectAll newIn2025Input = Some 2025"
    by (simp add: resolveStartYear_def newIn2025Input_def scenario_def zeroInput_def)
  have len: "length (calendar2025 (calculateSRLTaxes rejectAll dec1 newIn2025Input)) = 8"
    using arg_cong [OF calendar_scenario_new, of length] by simp
  then have mem: "calendar2025 (calculateSRLTaxes rejectAll dec1 newIn2025Input) ! 0
      \<in> set (calendar2025 (calculateSRLTaxes rejectAll dec1 newIn2025Input))"
    by simp
  show ?thesis
    using new_business_no_acconti [OF y, of dec1] y len mem by simp
qed

lemma acconti_newIn2024:
  "iresFirstAcconto (calculateSRLTaxes rejectAll dec1 newIn2024Input) = 7680"
  apply (simp only: calculateSRLTaxes_def Let_def SRLTaxCalculationResult.select_convs)
  apply (simp add: newIn2024Input_def zeroInput_def resolver_defs Let_def)
  done

text \<open>
  Claim C5 as stated fails: with start year and fiscal year both 2024 the first IRES
  installment is \<open>7680\<close> and the business does not count as new.
\<close>

theorem new_business_counterexample:
  "startYear newIn2024Input = fiscalYear newIn2024Input \<and>
   iresFirstAcconto (calculateSRLTaxes rejectAll dec1 newIn2024Input) = 7680 \<and>
   \<not> isNewBusiness (accontiDetailsR (calculateSRLTaxes rejectAll dec1 newIn2024Input))"
  by (simp add: acconti_newIn2024 isNewBusiness_calc)
     (simp add: newIn2024Input_def zeroInput_def resolveStartYear_def)

lemma fields_ignore_startYear:
  "revenue (i\<lparr>startYear := x\<rparr>) = revenue i"
  "costs (i\<lparr>startYear := x\<rparr>) = costs i"
  "employees (i\<lparr>startYear := x\<rparr>) = employees i"
  "employeeCosts (i\<lparr>startYear := x\<rparr>) = employeeCosts i"
  "adminSalary (i\<lparr>startYear := x\<rparr>) = adminSalary i"
  "region (i\<lparr>startYear := x\<rparr>) = region i"
  "businessSector (i\<lparr>startYear := x\<rparr>) = businessSector i"
  "vatRegime (i\<lparr>startYear := x\<rparr>) = vatRegime i"
  "hasVatDebt (i\<lparr>startYear := x\<rparr>) = hasVatDebt i"
  "vatDebt (i\<lparr>startYear := x\<rparr>) = vatDebt i"
  "currentBalance (i\<lparr>startYear := x\<rparr>) = currentBalance i"
  "startDate (i\<lparr>startYear := x\<rparr>) = startDate i"
  "vatOnSales (i\<lparr>startYear := x\<rparr>) = vatOnSales i"
  "vatOnPurchases (i\<lparr>startYear := x\<rparr>) = vatOnPurchases i"
  "fiscalYear (i\<lparr>startYear := x\<rparr>) = fiscalYear i"
  "revenue2024 (i\<lparr>startYear := x\<rparr>) = revenue2024 i"
  "costs2024 (i\<lparr>startYear := x\<rparr>) = costs2024 i"
  "utile2024 (i\<lparr>startYear := x\<rparr>) = utile2024 i"
  "utile2023 (i\<lparr>startYear := x\<rparr>) = utile2023 i"
  "investimentiPrevisti (i\<lparr>startYear := x\<rparr>) = investimentiPrevisti i"
  "mediaULA2022_2024 (i\<lparr>startYear := x\<rparr>) = mediaULA2022_2024 i"
  "dipendentiTempo2024 (i\<lparr>startYear := x\<rparr>) = dipendentiTempo2024 i"
  "nuoveAssunzioni2025 (i\<lparr>startYear := x\<rparr>) = nuoveAssunzioni2025 i"
  "hasUsedCIG (i\<lparr>startYear := x\<rparr>) = hasUsedCIG i"
  "interessiAttivi (i\<lparr>startYear := x\<rparr>) = interessiAttivi i"
  "interessiPassivi (i\<lparr>startYear := x\<rparr>) = interessiPassivi i"
  "rolFiscale (i\<lparr>startYear := x\<rparr>) = rolFiscale i"
  "perditePregresseOrdinarie (i\<lparr>startYear := x\<rparr>) = perditePregresseOrdinarie i"
  "perditePrimi3Esercizi (i\<lparr>startYear := x\<rparr>) = perditePrimi3Esercizi i"
  "costoNuoveAssunzioni (i\<lparr>startYear := x\<rparr>) = costoNuoveAssunzioni i"
  "incrementoCostoPersonale (i\<lparr>startYear := x\<rparr>) = incrementoCostoPersonale i"
  by simp_all

lemma resolvers_ignore_startYear:
  "checkIresPremialeConditions (i\<lparr>startYear := x\<rparr>) = checkIresPremialeConditions i"
  "calculateROLAndInterests (i\<lparr>startYear := x\<rparr>) = calculateROLAndInterests i"
  "calculateSuperDeduction (i\<lparr>startYear := x\<rparr>) = calculateSuperDeduction i"
  "calculateLossesUsage r (i\<lparr>startYear := x\<rparr>) = calculateLossesUsage r i"
  "calculateIrapDeductions (i\<lparr>startYear := x\<rparr>) = calculateIrapDeductions i"
  by (simp_all only: checkIresPremialeConditions_def calculateROLAndInterests_def
        calculateSuperDeduction_def calculateLossesUsage_def perditePrimi3Used_def
        perditeOrdinarieUsed_def calculateIrapDeductions_def fields_ignore_startYear)

lemma calendar_without_acconti:
  "createFiscalCalendar2025 0 0 0 0 vd inps fy False = createFiscalCalendar2025 0 0 0 0 vd inps fy True"
  by (simp add: createFiscalCalendar2025_def)

text \<open>What the code returns for a start date that cannot be parsed: the resolved year is
  \<open>NaN\<close> (\<open>None\<close> here), neither at most 2024 nor at least 2025, and the result is the one
  for the start year 2025 in every field but \<open>accontiDetails\<close>.\<close>

lemma unparseable_start_date_result:
  assumes "startYear i = None" and "startDate i = Some s" and "s \<noteq> []" and "g s = None"
  shows "resolveStartYear g i = None \<and>
         calculateSRLTaxes g t i =
           (calculateSRLTaxes g t (i\<lparr>startYear := Some 2025\<rparr>))
             \<lparr>accontiDetailsR :=
                \<lparr>isNewBusiness = False, accontiBasedOn2024 = False, accontiRate = 0.40\<rparr>\<rparr>"
proof -
  have L: "resolveStartYear g i = None"
    using assms by (simp add: resolveStartYear_def)
  have R: "resolveStartYear g (i\<lparr>startYear := Some 2025\<rparr>) = Some 2025"
    by (simp add: resolveStartYear_def)
  have n: "((2025::int) \<le> 2024) = False" "((2025::int) \<le> 2025) = True"
    by simp_all
  have "calculateSRLTaxes g t i =
           (calculateSRLTaxes g t (i\<lparr>startYear := Some 2025\<rparr>))
             \<lparr>accontiDetailsR :=
                \<lparr>isNewBusiness = False, accontiBasedOn2024 = False, accontiRate = 0.40\<rparr>\<rparr>"
    by (simp only: calculateSRLTaxes_def Let_def L R n resolvers_ignore_startYear
          fields_ignore_startYear SRLTaxCalculationResult.update_convs option.case
          simp_thms if_False if_True calendar_without_acconti)
  with L show ?thesis by simp
qed

text \<open>
  Claim C6, at the input where the code departs from it. The claim reads: with no
  explicit start year and a start date that cannot be parsed, nothing fails and the start
  year falls back to the default, as if 2025 had been supplied. The expression that
  resolves the year, \<open>input.startYear || (input.startDate ? new
  Date(input.startDate).getFullYear() : 2025)\<close>, falls back to 2025 for an absent and for
  an empty start date, but lets the \<open>NaN\<close> of an invalid date through. For the start date
  \<open>not a date\<close> nothing fails, but the resolved year is not 2025, and \<open>isNewBusiness\<close> is
  false where the start year 2025 makes it true.
\<close>

theorem unparseable_start_date_evaluated:
  "resolveStartYear rejectAll badDateInput \<noteq> Some 2025 \<and>
   \<not> isNewBusiness (accontiDetailsR (calculateSRLTaxes rejectAll dec1 badDateInput)) \<and>
   isNewBusiness
     (accontiDetailsR (calculateSRLTaxes rejectAll dec1 (badDateInput\<lparr>startYear := Some 2025\<rparr>)))"
  by (simp add: isNewBusiness_calc)
     (simp add: resolveStartYear_def badDateInput_def scenario_def zeroInput_def rejectAll_def)

end
